theory Spec2Isabelle
  imports Main "HOL-Library.Sublist" "HOL-Library.Word"
begin

unbundle bit_operations_syntax

section \<open>Go strings\<close>

text \<open>
  A Go string is a sequence of bytes; \<^typ>\<open>string\<close> is a list of 8-bit characters, and
  \<open>len\<close> is \<^const>\<open>length\<close>. The functions of package \<open>strings\<close> that the environment
  code calls are written out here with the meaning the Go documentation gives them.
\<close>

text \<open>\<open>strings.Index(s, substr)\<close>: the index of the first instance of \<open>substr\<close> in \<open>s\<close>;
  Go's \<open>-1\<close> is \<open>None\<close>.\<close>

fun Index :: "string \<Rightarrow> string \<Rightarrow> nat option" where
  "Index [] substr = (if substr = [] then Some 0 else None)"
| "Index (c # s) substr =
     (if prefix substr (c # s) then Some 0 else map_option Suc (Index s substr))"

text \<open>\<open>strings.Split(s, "\n")\<close>: the pieces between the separators; always at least one.\<close>

fun Split :: "string \<Rightarrow> char \<Rightarrow> string list" where
  "Split [] sep = [[]]"
| "Split (c # s) sep =
     (if c = sep then [] # Split s sep
      else (case Split s sep of [] \<Rightarrow> [[c]] | l # ls \<Rightarrow> (c # l) # ls))"

text \<open>\<open>strings.Join(elems, sep)\<close>.\<close>

fun Join :: "string list \<Rightarrow> string \<Rightarrow> string" where
  "Join [] sep = []"
| "Join [l] sep = l"
| "Join (l # ls) sep = l @ sep @ Join ls sep"

text \<open>\<open>strings.Cut(s, "=")\<close>: the text before and after the first \<open>=\<close>, and whether there
  is one.\<close>

fun Cut :: "string \<Rightarrow> char \<Rightarrow> string \<times> string \<times> bool" where
  "Cut [] sep = ([], [], False)"
| "Cut (c # s) sep =
     (if c = sep then ([], s, True)
      else (case Cut s sep of
              (before, after, True) \<Rightarrow> (c # before, after, True)
            | (_, _, False) \<Rightarrow> (c # s, [], False)))"

text \<open>\<open>%d\<close> of a non-negative integer, and of any integer (\<open>strconv.Itoa\<close>).\<close>

fun digits :: "nat \<Rightarrow> string" where
  "digits n = (if n < 10 then [''0123456789'' ! n]
               else digits (n div 10) @ [''0123456789'' ! (n mod 10)])"

declare digits.simps [simp del]

definition Itoa :: "int \<Rightarrow> string" where
  "Itoa i = (if i < 0 then CHR ''-'' # digits (nat (- i)) else digits (nat i))"

text \<open>\<open>%4d\<close>: right-aligned in a field of width 4.\<close>

definition pad4 :: "string \<Rightarrow> string" where
  "pad4 s = replicate (4 - length s) CHR '' '' @ s"


text \<open>\<open>strings.EqualFold(s, "host")\<close>: equality under Unicode simple case folding. The
  letters \<open>h\<close>, \<open>o\<close>, \<open>t\<close> fold only with their capitals; \<open>s\<close> also folds with the
  long s, U+017F, whose UTF-8 encoding is the two bytes C5 BF.\<close>

fun EqualFold_host :: "string \<Rightarrow> bool" where
  "EqualFold_host (h # ou # rest) =
     ((h = CHR ''h'' \<or> h = CHR ''H'') \<and> (ou = CHR ''o'' \<or> ou = CHR ''O'') \<and>
      (case rest of
         [s, t] \<Rightarrow> (s = CHR ''s'' \<or> s = CHR ''S'') \<and> (t = CHR ''t'' \<or> t = CHR ''T'')
       | [s1, s2, t] \<Rightarrow> s1 = CHR 0xC5 \<and> s2 = CHR 0xBF \<and> (t = CHR ''t'' \<or> t = CHR ''T'')
       | _ \<Rightarrow> False))"
| "EqualFold_host _ = False"

text \<open>\<open>strings.TrimSpace(s) == ""\<close>: the string is a sequence of white-space runes only
  (\<open>unicode.IsSpace\<close>, read through their UTF-8 encodings).\<close>

definition ascii_space :: "char \<Rightarrow> bool" where
  "ascii_space c = (c = CHR 0x09 \<or> c = CHR 0x0A \<or> c = CHR 0x0B \<or> c = CHR 0x0C \<or>
                    c = CHR 0x0D \<or> c = CHR 0x20)"

fun TrimSpace_empty :: "string \<Rightarrow> bool" where
  "TrimSpace_empty [] = True"
| "TrimSpace_empty [a] = ascii_space a"
| "TrimSpace_empty [a, b] =
     (if ascii_space a then TrimSpace_empty [b]
      else a = CHR 0xC2 \<and> (b = CHR 0x85 \<or> b = CHR 0xA0))"
| "TrimSpace_empty (a # b # c # s) =
     (if ascii_space a then TrimSpace_empty (b # c # s)
      else if a = CHR 0xC2 \<and> (b = CHR 0x85 \<or> b = CHR 0xA0) then TrimSpace_empty (c # s)
      else if (a = CHR 0xE1 \<and> b = CHR 0x9A \<and> c = CHR 0x80) \<or>
              (a = CHR 0xE2 \<and> b = CHR 0x80 \<and>
                 (of_char c \<in> {0x80 .. 0x8A :: nat} \<or> c = CHR 0xA8 \<or> c = CHR 0xA9 \<or> c = CHR 0xAF)) \<or>
              (a = CHR 0xE2 \<and> b = CHR 0x81 \<and> c = CHR 0x9F) \<or>
              (a = CHR 0xE3 \<and> b = CHR 0x80 \<and> c = CHR 0x80)
           then TrimSpace_empty s
      else False)"

section \<open>SHA-256\<close>

text \<open>
  \<open>generateMatchID\<close> hashes with \<open>crypto/sha256\<close>. The hash is FIPS 180-4 SHA-256 on
  32-bit words; \<open>sha256_hex\<close> is the lower-case hexadecimal rendering that \<open>%x\<close> gives of
  the 32-byte digest.
\<close>

type_synonym w32 = "32 word"

definition K256 :: "w32 list" where
  "K256 = concat [
   [0x428a2f98, 0x71374491, 0xb5c0fbcf, 0xe9b5dba5],
   [0x3956c25b, 0x59f111f1, 0x923f82a4, 0xab1c5ed5],
   [0xd807aa98, 0x12835b01, 0x243185be, 0x550c7dc3],
   [0x72be5d74, 0x80deb1fe, 0x9bdc06a7, 0xc19bf174],
   [0xe49b69c1, 0xefbe4786, 0x0fc19dc6, 0x240ca1cc],
   [0x2de92c6f, 0x4a7484aa, 0x5cb0a9dc, 0x76f988da],
   [0x983e5152, 0xa831c66d, 0xb00327c8, 0xbf597fc7],
   [0xc6e00bf3, 0xd5a79147, 0x06ca6351, 0x14292967],
   [0x27b70a85, 0x2e1b2138, 0x4d2c6dfc, 0x53380d13],
   [0x650a7354, 0x766a0abb, 0x81c2c92e, 0x92722c85],
   [0xa2bfe8a1, 0xa81a664b, 0xc24b8b70, 0xc76c51a3],
   [0xd192e819, 0xd6990624, 0xf40e3585, 0x106aa070],
   [0x19a4c116, 0x1e376c08, 0x2748774c, 0x34b0bcb5],
   [0x391c0cb3, 0x4ed8aa4a, 0x5b9cca4f, 0x682e6ff3],
   [0x748f82ee, 0x78a5636f, 0x84c87814, 0x8cc70208],
   [0x90befffa, 0xa4506ceb, 0xbef9a3f7, 0xc67178f2]]"

definition init256 :: "w32 list" where
  "init256 = [0x6a09e667, 0xbb67ae85, 0x3c6ef372, 0xa54ff53a] @
             [0x510e527f, 0x9b05688c, 0x1f83d9ab, 0x5be0cd19]"

definition rotr :: "nat \<Rightarrow> w32 \<Rightarrow> w32" where
  "rotr n x = drop_bit n x OR push_bit (32 - n) x"

definition bsig0 :: "w32 \<Rightarrow> w32" where
  "bsig0 x = rotr 2 x XOR rotr 13 x XOR rotr 22 x"

definition bsig1 :: "w32 \<Rightarrow> w32" where
  "bsig1 x = rotr 6 x XOR rotr 11 x XOR rotr 25 x"

definition ssig0 :: "w32 \<Rightarrow> w32" where
  "ssig0 x = rotr 7 x XOR rotr 18 x XOR drop_bit 3 x"

definition ssig1 :: "w32 \<Rightarrow> w32" where
  "ssig1 x = rotr 17 x XOR rotr 19 x XOR drop_bit 10 x"

definition ch :: "w32 \<Rightarrow> w32 \<Rightarrow> w32 \<Rightarrow> w32" where
  "ch x y z = (x AND y) XOR (NOT x AND z)"

definition maj :: "w32 \<Rightarrow> w32 \<Rightarrow> w32 \<Rightarrow> w32" where
  "maj x y z = (x AND y) XOR (x AND z) XOR (y AND z)"

text \<open>Padding: the byte 0x80, zero bytes up to 56 modulo 64, the bit length in 8 bytes,
  big-endian. Bytes are kept as 32-bit words, ready to be packed four to a word.\<close>

fun be_bytes :: "nat \<Rightarrow> int \<Rightarrow> w32 list" where
  "be_bytes 0 n = []"
| "be_bytes (Suc k) n = be_bytes k (n div 256) @ [word_of_int (n mod 256)]"

definition be64 :: "int \<Rightarrow> w32 list" where
  "be64 n = be_bytes 8 n"

definition pad :: "w32 list \<Rightarrow> w32 list" where
  "pad bs = bs @ [0x80] @ replicate ((119 - length bs mod 64) mod 64) 0 @ be64 (8 * int (length bs))"

fun words_of :: "w32 list \<Rightarrow> w32 list" where
  "words_of (a # b # c # d # r) =
     (push_bit 24 a OR push_bit 16 b OR push_bit 8 c OR d) # words_of r"
| "words_of _ = []"

fun chunks :: "w32 list \<Rightarrow> w32 list list" where
  "chunks [] = []"
| "chunks (x # xs) = take 16 (x # xs) # chunks (drop 16 (x # xs))"

fun schedule :: "nat \<Rightarrow> w32 list \<Rightarrow> w32 list" where
  "schedule 0 w = w"
| "schedule (Suc n) w =
     (let t = length w in
      schedule n (w @ [ssig1 (w ! (t - 2)) + w ! (t - 7) + ssig0 (w ! (t - 15)) + w ! (t - 16)]))"

fun round256 :: "w32 list \<Rightarrow> w32 \<times> w32 \<Rightarrow> w32 list" where
  "round256 [a, b, c, d, e, f, g, h] (k, w) =
     (let t1 = h + bsig1 e + ch e f g + k + w;
          t2 = bsig0 a + maj a b c
      in [t1 + t2, a, b, c, d + t1, e, f, g])"
| "round256 s _ = s"

definition block256 :: "w32 list \<Rightarrow> w32 list \<Rightarrow> w32 list" where
  "block256 h m = map2 (+) h (foldl round256 h (zip K256 (schedule 48 m)))"

definition hexdigit :: "nat \<Rightarrow> char" where
  "hexdigit n = ''0123456789abcdef'' ! n"

definition hex32 :: "w32 \<Rightarrow> string" where
  "hex32 w = map (\<lambda>i. hexdigit (unat (drop_bit (4 * (7 - i)) w AND 15))) [0..<8]"

definition sha256_hex :: "string \<Rightarrow> string" where
  "sha256_hex s =
     concat (map hex32 (foldl block256 init256 (chunks (words_of (pad (map (\<lambda>c. word_of_int (of_char c)) s))))))"


section \<open>Errors\<close>

text \<open>
  The Go code reports failure through \<open>error\<close> values built with \<open>fmt.Errorf\<close>.
  \<open>Errorf format args wrapped\<close> keeps the format string, the arguments of its \<open>%s\<close>,
  \<open>%d\<close> and \<open>%q\<close> verbs in order (integers in decimal), and the error wrapped by \<open>%w\<close>
  if there is one. Errors that come from outside the package are \<open>External\<close> (opaque), \<open>ExecError\<close>
  (the runtime's report of a command that exited non-zero: exit code, stdout, stderr),
  \<open>DeadlineExceeded\<close> and \<open>OS\<close> (an error of \<open>os/exec\<close>). A run-time panic is not an
  error value in Go; the model returns it as \<open>Panic\<close> so that it stays visible.
\<close>

datatype oserror = ExitError int string | OSError string

fun oserror_Error :: "oserror \<Rightarrow> string" where
  "oserror_Error (ExitError code msg) = msg"
| "oserror_Error (OSError msg) = msg"

datatype error =
    External string
  | ExecError int string string
  | DeadlineExceeded
  | OS oserror
  | Errorf string "string list" "error option"
  | Panic string

text \<open>\<open>errors.As(err, &exitErr)\<close> for \<open>*dagger.ExecError\<close> and
  \<open>errors.Is(err, context.DeadlineExceeded)\<close>: both follow the chain of wrapped errors.\<close>

fun as_ExecError :: "error \<Rightarrow> (int \<times> string \<times> string) option" where
  "as_ExecError (ExecError code out err) = Some (code, out, err)"
| "as_ExecError (Errorf f args (Some e)) = as_ExecError e"
| "as_ExecError _ = None"


section \<open>Data model\<close>

type_synonym time = int

record EnvironmentConfig =
  BaseImage :: string
  Workdir :: string
  SetupCommands :: "string list"
  InstallCommands :: "string list"
  Env :: "string list"
  Secrets :: "string list"

record BackgroundProcess =
  PID :: int
  Command :: string
  Shell :: string
  Ports :: "int list"
  ProcWorkdir :: string
  StartedAt :: time

record State =
  Config :: EnvironmentConfig
  Title :: string
  CreatedAt :: time
  UpdatedAt :: time
  Container :: string
  BackgroundProcesses :: "BackgroundProcess list"

text \<open>
  Modelled from the spec: the type \<open>Notes\<close> and its methods \<open>Add\<close> and \<open>AddCommand\<close>
  are declared outside the files at hand. The spec calls it an append-only ordered log of
  recorded actions; an entry is either a formatted line or a command with its exit code,
  stdout and stderr.
\<close>

datatype entry = Note string | CommandNote string int string string

definition Notes_Add :: "string \<Rightarrow> entry list \<Rightarrow> entry list" where
  "Notes_Add line notes = notes @ [Note line]"

definition Notes_AddCommand :: "string \<Rightarrow> int \<Rightarrow> string \<Rightarrow> string \<Rightarrow> entry list \<Rightarrow> entry list" where
  "Notes_AddCommand command exitCode stdout stderr notes =
     notes @ [CommandNote command exitCode stdout stderr]"

subsection \<open>The container runtime\<close>

text \<open>
  A \<open>*dagger.Container\<close> is a lazy description of a container state: each \<open>With...\<close>
  call extends the description, and only \<open>ExitCode\<close>, \<open>Stdout\<close>, \<open>Stderr\<close>, \<open>Sync\<close>, \<open>ID\<close>
  and \<open>Contents\<close> ask the runtime to evaluate it. The descriptions are the datatypes
  \<open>dagger_Container\<close> and \<open>dagger_Directory\<close> (\<open>NilDirectory\<close> is Go's \<open>nil\<close>); the runtime's answers are fields of \<open>world\<close>.
  \<open>godiffpatch.GeneratePatch\<close> belongs to a library; its result is kept symbolic.
\<close>

datatype patch = GeneratePatch string string string

text \<open>The options of an exec. \<open>NoOpts\<close> is a \<open>WithExec\<close> without options, as the build
  steps call it. \<open>RunOpts useEntrypoint\<close> stands for the options of \<open>Run\<close>: \<open>UseEntrypoint\<close>
  as given, \<open>Expect: dagger.ReturnTypeAny\<close> and \<open>ExperimentalPrivilegedNesting: true\<close>.\<close>

datatype execopts = NoOpts | RunOpts bool

datatype dagger_Container =
    LoadContainerFromID string
  | From string
  | WithWorkdir dagger_Container string
  | WithEnvVariable dagger_Container string string
  | WithSecretVariable dagger_Container string string
  | WithExec dagger_Container "string list" execopts
  | WithServiceBinding dagger_Container string string
  | WithDirectory dagger_Container string dagger_Directory
  | WithNewFile dagger_Container string string
  | WithoutFile dagger_Container string
  | WithExposedPort dagger_Container int
and dagger_Directory =
    NilDirectory
  | SourceDirectory string
  | Directory dagger_Container string
  | WithPatch dagger_Directory patch

record Service =
  ServiceName :: string
  svc :: string


text \<open>
  What the model records of the outside world: every command handed to the runtime or to
  the host for execution, every signal sent and every sleep, in order.
\<close>

datatype signal = SIGTERM | SIGKILL

datatype event =
    ContainerExec dagger_Container
  | HostExec "string list" string "string list"
  | HostStart "string list" string "string list"
  | ServiceStart dagger_Container "string list" bool
  | Signal int signal
  | Sleep nat

text \<open>
  The Environment. \<open>Effects\<close> is not a field of the Go struct: it is the trace of external
  effects above, threaded with the state. The mutex \<open>mu\<close> has no counterpart, since the model
  is sequential.
\<close>

record Environment =
  ID :: string
  State :: State
  Services :: "Service list"
  Notes :: "entry list"
  Effects :: "event list"

text \<open>
  The collaborators: the answers of the container runtime (\<open>dag...\<close>) and of the operating
  system (\<open>os...\<close>). The host's answers may depend on everything that has happened before,
  so they take the trace. \<open>dagStartServices\<close> stands for \<open>env.startServices\<close>, and
  \<open>serviceStartTimeout\<close> for the constant of that name (as \<open>%s\<close> prints it); both are
  declared outside the files at hand.
\<close>

record world =
  dagExitCode :: "dagger_Container \<Rightarrow> error + int"
  dagStdout :: "dagger_Container \<Rightarrow> error + string"
  dagStderr :: "dagger_Container \<Rightarrow> error + string"
  dagSync :: "dagger_Container \<Rightarrow> error option"
  dagID :: "dagger_Container \<Rightarrow> error + string"
  dagFileContents :: "dagger_Container \<Rightarrow> string \<Rightarrow> error + string"
  dagStartServices :: "event list \<Rightarrow> Service list \<times> error option"
  dagServiceStart :: "dagger_Container \<Rightarrow> string list \<Rightarrow> bool \<Rightarrow> error + string"
  dagTunnelStart :: "string \<Rightarrow> int \<Rightarrow> error + string"
  dagTunnelEndpoint :: "string \<Rightarrow> error + string"
  dagServiceEndpoint :: "string \<Rightarrow> int \<Rightarrow> error + string"
  serviceStartTimeout :: string
  osEnviron :: "string list"
  osLookupEnv :: "string \<Rightarrow> string option"
  osCombinedOutput :: "event list \<Rightarrow> string list \<Rightarrow> string \<Rightarrow> string list \<Rightarrow> string \<times> oserror option"
  osStart :: "event list \<Rightarrow> string list \<Rightarrow> string \<Rightarrow> string list \<Rightarrow> oserror + int"
  osFindProcess :: "int \<Rightarrow> error option"
  osPortAvailable :: "event list \<Rightarrow> int \<Rightarrow> bool"
  osListenAny :: "event list \<Rightarrow> error + int"


section \<open>Environment lifecycle\<close>

abbreviation NL :: char where
  "NL \<equiv> CHR 0x0A"

definition IsHost :: "Environment \<Rightarrow> bool" where
  "IsHost env = EqualFold_host (BaseImage (Config (State env)))"

definition container :: "Environment \<Rightarrow> dagger_Container" where
  "container env = LoadContainerFromID (Container (State env))"

definition Workdir_of :: "Environment \<Rightarrow> dagger_Directory" where
  "Workdir_of env = Directory (container env) (Workdir (Config (State env)))"

text \<open>\<open>apply\<close>: synchronise the new state with the runtime, ask for its id, and only then
  replace \<open>UpdatedAt\<close> and \<open>Container\<close>. \<open>now\<close> is the reading of \<open>time.Now()\<close>.\<close>

definition apply' :: "world \<Rightarrow> time \<Rightarrow> Environment \<Rightarrow> dagger_Container \<Rightarrow> error option \<times> Environment" where
  "apply' w now env newState =
     (case dagSync w newState of
        Some err \<Rightarrow> (Some err, env)
      | None \<Rightarrow>
          (case dagID w newState of
             Inl err \<Rightarrow> (Some err, env)
           | Inr containerID \<Rightarrow>
               (None, env\<lparr>State := (State env)\<lparr>UpdatedAt := now, Container := containerID\<rparr>\<rparr>)))"

definition applyHost :: "time \<Rightarrow> Environment \<Rightarrow> error option \<times> Environment" where
  "applyHost now env =
     (None, env\<lparr>State := (State env)\<lparr>UpdatedAt := now, Container := ''host''\<rparr>\<rparr>)"

text \<open>\<open>containerWithEnvAndSecrets\<close>: its two loops.\<close>

fun withEnvs :: "dagger_Container \<Rightarrow> string list \<Rightarrow> error + dagger_Container" where
  "withEnvs c [] = Inr c"
| "withEnvs c (e # envs) =
     (case Cut e CHR ''='' of
        (k, v, found) \<Rightarrow>
          if \<not> found then Inl (Errorf ''invalid env variable: %s'' [e] None)
          else withEnvs (WithEnvVariable c k v) envs)"

fun withSecrets :: "dagger_Container \<Rightarrow> string list \<Rightarrow> error + dagger_Container" where
  "withSecrets c [] = Inr c"
| "withSecrets c (secret # secrets) =
     (case Cut secret CHR ''='' of
        (k, v, found) \<Rightarrow>
          if \<not> found then Inl (Errorf ''invalid secret: %s'' [secret] None)
          else withSecrets (WithSecretVariable c k v) secrets)"

definition containerWithEnvAndSecrets ::
  "dagger_Container \<Rightarrow> string list \<Rightarrow> string list \<Rightarrow> error + dagger_Container" where
  "containerWithEnvAndSecrets c envs secrets =
     (case withEnvs c envs of Inl err \<Rightarrow> Inl err | Inr c' \<Rightarrow> withSecrets c' secrets)"

text \<open>\<open>buildHostEnv\<close>: the host environment, then the configured variables as they are,
  then each secret \<open>KEY=ENV_NAME\<close> whose \<open>ENV_NAME\<close> is set on the host; a secret without
  \<open>=\<close> is skipped.\<close>

definition buildHostEnv :: "world \<Rightarrow> Environment \<Rightarrow> string list" where
  "buildHostEnv w env =
     osEnviron w @ Env (Config (State env)) @
     concat (map (\<lambda>kv. case Cut kv CHR ''='' of
                          (k, v, ok) \<Rightarrow>
                            if \<not> ok then []
                            else (case osLookupEnv w v of
                                    Some val \<Rightarrow> [k @ ''='' @ val]
                                  | None \<Rightarrow> []))
                 (Secrets (Config (State env))))"

text \<open>The exit code and the stderr text that the host paths derive from the error of
  \<open>cmd.CombinedOutput()\<close>.\<close>

definition hostExitCode :: "oserror option \<Rightarrow> int" where
  "hostExitCode err = (case err of None \<Rightarrow> 0 | Some (ExitError code msg) \<Rightarrow> code | Some (OSError msg) \<Rightarrow> 1)"

definition hostStderr :: "oserror option \<Rightarrow> string" where
  "hostStderr err = (case err of None \<Rightarrow> [] | Some e \<Rightarrow> oserror_Error e)"

text \<open>\<open>runCommands\<close> of the host path of \<open>buildBase\<close>.\<close>

fun runCommandsHost :: "world \<Rightarrow> string list \<Rightarrow> string list \<Rightarrow> Environment \<Rightarrow> error option \<times> Environment" where
  "runCommandsHost w hostEnv [] env = (None, env)"
| "runCommandsHost w hostEnv (command # commands) env =
     (let args = [''sh'', ''-c'', command];
          dir = Workdir (Config (State env));
          (output, err) = osCombinedOutput w (Effects env) args dir hostEnv;
          env' = env\<lparr>Effects := Effects env @ [HostExec args dir hostEnv],
                     Notes := Notes_AddCommand command (hostExitCode err) output (hostStderr err) (Notes env)\<rparr>
      in case err of
           Some e \<Rightarrow> (Some (Errorf ''command %q failed: %w'' [command] (Some (OS e))), env')
         | None \<Rightarrow> runCommandsHost w hostEnv commands env')"

text \<open>\<open>runCommands\<close> of the container path: the closure extends the captured \<open>container\<close>
  by one \<open>WithExec\<close> per command and asks the runtime for its exit code.\<close>

fun runCommands ::
  "world \<Rightarrow> string list \<Rightarrow> dagger_Container \<Rightarrow> Environment \<Rightarrow> error option \<times> dagger_Container \<times> Environment" where
  "runCommands w [] c env = (None, c, env)"
| "runCommands w (command # commands) c env =
     (let c' = WithExec c [''sh'', ''-c'', command] NoOpts;
          env1 = env\<lparr>Effects := Effects env @ [ContainerExec c']\<rparr>
      in case dagExitCode w c' of
           Inl err \<Rightarrow>
             (case as_ExecError err of
                Some (code, out, errout) \<Rightarrow>
                  (Some (Errorf (''exit code %d.'' @ [NL] @ ''stdout: %s'' @ [NL] @ ''stderr: %s'' @ [NL] @ ''%w'')
                           [Itoa code, out, errout] (Some err)),
                   c', env1\<lparr>Notes := Notes_AddCommand command code out errout (Notes env1)\<rparr>)
              | None \<Rightarrow> (Some err, c', env1))
         | Inr exitCode \<Rightarrow>
             (case dagStdout w c' of
                Inl err \<Rightarrow> (Some (Errorf ''failed to get stdout: %w'' [] (Some err)), c', env1)
              | Inr stdout \<Rightarrow>
                  (case dagStderr w c' of
                     Inl err \<Rightarrow> (Some (Errorf ''failed to get stderr: %w'' [] (Some err)), c', env1)
                   | Inr stderr \<Rightarrow>
                       runCommands w commands c'
                         (env1\<lparr>Notes := Notes_AddCommand command exitCode stdout stderr (Notes env1)\<rparr>))))"

definition buildBase ::
  "world \<Rightarrow> Environment \<Rightarrow> dagger_Directory \<Rightarrow> (error + dagger_Container option) \<times> Environment" where
  "buildBase w env baseSourceDir =
     (let cfg = Config (State env) in
      if IsHost env then
        (let hostEnv = buildHostEnv w env in
         case runCommandsHost w hostEnv (SetupCommands cfg) env of
           (Some err, env1) \<Rightarrow> (Inl (Errorf ''setup command failed: %w'' [] (Some err)), env1)
         | (None, env1) \<Rightarrow>
             (case runCommandsHost w hostEnv (InstallCommands cfg) env1 of
                (Some err, env2) \<Rightarrow> (Inl (Errorf ''install command failed: %w'' [] (Some err)), env2)
              | (None, env2) \<Rightarrow> (Inr None, env2)))
      else
        (case containerWithEnvAndSecrets (WithWorkdir (From (BaseImage cfg)) (Workdir cfg))
                (Env cfg) (Secrets cfg) of
           Inl err \<Rightarrow> (Inl err, env)
         | Inr c0 \<Rightarrow>
             (case runCommands w (SetupCommands cfg) c0 env of
                (Some err, c1, env1) \<Rightarrow> (Inl (Errorf ''setup command failed: %w'' [] (Some err)), env1)
              | (None, c1, env1) \<Rightarrow>
                  (case dagStartServices w (Effects env1) of
                     (services, Some err) \<Rightarrow>
                       (Inl (Errorf ''failed to start services: %w'' [] (Some err)),
                        env1\<lparr>Services := services\<rparr>)
                   | (services, None) \<Rightarrow>
                       (let env2 = env1\<lparr>Services := services\<rparr>;
                            c2 = foldl (\<lambda>c service. WithServiceBinding c (ServiceName service) (svc service))
                                   c1 services;
                            c3 = WithDirectory c2 ''.'' baseSourceDir
                        in case runCommands w (InstallCommands cfg) c3 env2 of
                             (Some err, c4, env3) \<Rightarrow>
                               (Inl (Errorf ''install command failed: %w'' [] (Some err)), env3)
                           | (None, c4, env3) \<Rightarrow> (Inr (Some c4), env3))))))"

text \<open>\<open>UpdateConfig\<close>. The first statement stores the new configuration; the mode of the
  rebuild is then read from it. In container mode \<open>buildBase\<close> returns a container, so the
  \<open>nil\<close> case of \<open>apply\<close> (a nil dereference) is there only for totality.\<close>

definition UpdateConfig :: "world \<Rightarrow> time \<Rightarrow> Environment \<Rightarrow> EnvironmentConfig \<Rightarrow> error option \<times> Environment" where
  "UpdateConfig w now env newConfig =
     (let env0 = env\<lparr>State := (State env)\<lparr>Config := newConfig\<rparr>\<rparr>
      in case (if IsHost env0 then buildBase w env0 NilDirectory
               else buildBase w env0 (Workdir_of env0)) of
           (Inl err, env1) \<Rightarrow> (Some err, env1)
         | (Inr c, env1) \<Rightarrow>
             if IsHost env1 then applyHost now env1
             else (case c of
                     Some c' \<Rightarrow> apply' w now env1 c'
                   | None \<Rightarrow> (Some (Panic ''nil pointer dereference''), env1)))"

definition combineStdoutStderr :: "string \<Rightarrow> string \<Rightarrow> string" where
  "combineStdoutStderr stdout stderr =
     (if stderr = [] then stdout
      else if stdout \<noteq> [] then stdout @ [NL] @ ''stderr: '' @ stderr
      else ''stderr: '' @ stderr)"

definition Run :: "world \<Rightarrow> time \<Rightarrow> Environment \<Rightarrow> string \<Rightarrow> string \<Rightarrow> bool \<Rightarrow> (string \<times> error option) \<times> Environment" where
  "Run w now env command shell useEntrypoint =
     (if IsHost env then
        (if TrimSpace_empty command then (([], None), env)
         else
           (let args = [shell, ''-c'', command];
                dir = Workdir (Config (State env));
                hostEnv = buildHostEnv w env;
                (output, err) = osCombinedOutput w (Effects env) args dir hostEnv;
                env' = env\<lparr>Effects := Effects env @ [HostExec args dir hostEnv],
                           Notes := Notes_AddCommand command (hostExitCode err) output (hostStderr err) (Notes env)\<rparr>
            in ((combineStdoutStderr output (hostStderr err), None), env')))
      else
        (let args = (if command \<noteq> [] then [shell, ''-c'', command] else []);
             newState = WithExec (container env) args (RunOpts useEntrypoint);
             env1 = env\<lparr>Effects := Effects env @ [ContainerExec newState]\<rparr>
         in case dagExitCode w newState of
              Inl err \<Rightarrow> (([], Some (Errorf ''failed to get exit code: %w'' [] (Some err))), env1)
            | Inr exitCode \<Rightarrow>
                (case dagStdout w newState of
                   Inl err \<Rightarrow> (([], Some (Errorf ''failed to get stdout: %w'' [] (Some err))), env1)
                 | Inr stdout \<Rightarrow>
                     (case dagStderr w newState of
                        Inl err \<Rightarrow> (([], Some (Errorf ''failed to get stderr: %w'' [] (Some err))), env1)
                      | Inr stderr \<Rightarrow>
                          (let env2 = env1\<lparr>Notes := Notes_AddCommand command exitCode stdout stderr (Notes env1)\<rparr>
                           in case apply' w now env2 newState of
                                (Some err, env3) \<Rightarrow>
                                  ((stdout, Some (Errorf ''failed to apply container state: %w'' [] (Some err))), env3)
                              | (None, env3) \<Rightarrow>
                                  ((stdout @ (if stderr \<noteq> []
                                              then (if stdout \<noteq> [] then [NL] else []) @ ''stderr: '' @ stderr
                                              else []), None), env3))))))"








text \<open>\<open>KillBackground\<close>: the process is looked up with \<open>os.FindProcess\<close>, signalled, and every
  entry with its pid is dropped from \<open>BackgroundProcesses\<close>.\<close>

definition KillBackground :: "world \<Rightarrow> time \<Rightarrow> Environment \<Rightarrow> int \<Rightarrow> error option \<times> Environment" where
  "KillBackground w now env pid =
     (if \<not> IsHost env then (Some (Errorf ''kill is only supported in host mode'' [] None), env)
      else
        (case osFindProcess w pid of
           Some err \<Rightarrow> (Some (Errorf ''process not found: %w'' [] (Some err)), env)
         | None \<Rightarrow>
             (None,
              env\<lparr>Effects := Effects env @ [Signal pid SIGTERM, Sleep 500, Signal pid SIGKILL],
                  State := (State env)
                    \<lparr>BackgroundProcesses := filter (\<lambda>bp. PID bp \<noteq> pid) (BackgroundProcesses (State env)),
                     UpdatedAt := now\<rparr>,
                  Notes := Notes_Add (''Stopped background process PID='' @ Itoa pid) (Notes env)\<rparr>)))"

section \<open>File mutation subsystem\<close>

text \<open>Go's \<open>int\<close> is a 64-bit two's-complement integer; the only subtraction of
  \<open>FileRead\<close> that can leave the range is \<open>startLine - 1\<close>.\<close>

definition int64 :: "int \<Rightarrow> int" where
  "int64 i = sint (word_of_int i :: 64 word)"

definition FileRead :: "world \<Rightarrow> Environment \<Rightarrow> string \<Rightarrow> bool \<Rightarrow> int \<Rightarrow> int \<Rightarrow> error + string" where
  "FileRead w env targetFile shouldReadEntireFile startLineOneIndexedInclusive endLineOneIndexedInclusive =
     (case dagFileContents w (container env) targetFile of
        Inl err \<Rightarrow> Inl err
      | Inr file \<Rightarrow>
          if shouldReadEntireFile then Inr file
          else
            (let lines = Split file NL;
                 n = int (length lines);
                 start0 = int64 (startLineOneIndexedInclusive - 1);
                 start1 = max start0 0;
                 start = (if start1 \<ge> n then n - 1 else start1)
             in if start < 0 then
                  Inl (Errorf ''error reading file: start_line_one_indexed_inclusive (%d) cannot be less than 1''
                         [Itoa startLineOneIndexedInclusive] None)
                else
                  (let end0 = endLineOneIndexedInclusive;
                       end1 = (if end0 \<ge> n then n - 1 else end0)
                   in if end1 < start then
                        Inl (Errorf ''error reading file: end_line_one_indexed_inclusive (%d) must be greater than start_line_one_indexed_inclusive (%d)''
                               [Itoa endLineOneIndexedInclusive, Itoa startLineOneIndexedInclusive] None)
                      else Inr (Join (take (nat (end1 - start)) (drop (nat start) lines)) [NL]))))"



text \<open>\<open>generateMatchID\<close>: the first 8 hexadecimal digits of the SHA-256 of
  \<open>targetFile:search:replace:index\<close>.\<close>

definition generateMatchID :: "string \<Rightarrow> string \<Rightarrow> string \<Rightarrow> nat \<Rightarrow> string" where
  "generateMatchID targetFile search replace index =
     take 8 (sha256_hex (targetFile @ '':'' @ search @ '':'' @ replace @ '':'' @ Itoa (int index)))"

text \<open>\<open>getMatchContext\<close>: first the loop that finds the line of the match (\<open>matchLine\<close>
  stays 0 when the loop ends without \<open>break\<close>), then three lines of context on each side.\<close>

fun findMatchLine :: "string list \<Rightarrow> nat \<Rightarrow> nat \<Rightarrow> nat \<Rightarrow> nat" where
  "findMatchLine [] i currentPos matchIndex = 0"
| "findMatchLine (line # lines) i currentPos matchIndex =
     (if currentPos + length line \<ge> matchIndex then i
      else findMatchLine lines (i + 1) (currentPos + length line + 1) matchIndex)"

definition getMatchContext :: "string \<Rightarrow> nat \<Rightarrow> string" where
  "getMatchContext contents matchIndex =
     (let lines = Split contents NL;
          matchLine = findMatchLine lines 0 0 matchIndex;
          start = matchLine - 3;
          end = min (length lines) (matchLine + 4)
      in Join (map (\<lambda>i. (if i = matchLine then ''> '' else ''  '') @ pad4 (Itoa (int (i + 1))) @ '' | '' @ lines ! i)
                 [start..<end]) [NL])"

text \<open>
  The search loop of \<open>FileEdit\<close>: after a match at \<open>actualIndex\<close> the cursor moves to
  \<open>actualIndex + 1\<close>. Slicing \<open>contents[cursor:]\<close> with the cursor beyond the end of the
  string is a run-time panic in Go.
\<close>

function findMatches :: "string \<Rightarrow> string \<Rightarrow> nat \<Rightarrow> nat list \<Rightarrow> error + nat list" where
  "findMatches contents search cursor matches =
     (if cursor > length contents then Inl (Panic ''slice bounds out of range'')
      else (case Index (drop cursor contents) search of
              None \<Rightarrow> Inr matches
            | Some index \<Rightarrow>
                findMatches contents search (cursor + index + 1) (matches @ [cursor + index])))"
  by pat_completeness auto
termination
  by (relation "measure (\<lambda>(contents, search, cursor, matches). Suc (length contents) - cursor)") auto

declare findMatches.simps [simp del]

text \<open>The descriptions of the matches in the error for an ambiguous search, and the loop
  that looks for the match with the given id.\<close>

definition matchDescriptions :: "string \<Rightarrow> string \<Rightarrow> string \<Rightarrow> string \<Rightarrow> nat list \<Rightarrow> string list" where
  "matchDescriptions contents targetFile search replace matches =
     map (\<lambda>(i, matchIndex).
            ''Match '' @ Itoa (int (i + 1)) @ '' (ID: '' @ generateMatchID targetFile search replace i @ ''):'' @
            [NL] @ getMatchContext contents matchIndex)
       (enumerate 0 matches)"

fun findMatchByID :: "string \<Rightarrow> string \<Rightarrow> string \<Rightarrow> string \<Rightarrow> (nat \<times> nat) list \<Rightarrow> nat option" where
  "findMatchByID targetFile search replace matchID [] = None"
| "findMatchByID targetFile search replace matchID ((i, matchIndex) # rest) =
     (if generateMatchID targetFile search replace i = matchID then Some matchIndex
      else findMatchByID targetFile search replace matchID rest)"

text \<open>The last statements of \<open>FileEdit\<close>: the new contents with the match at
  \<open>targetMatchIndex\<close> replaced, the patch from the old contents to the new, the new container
  state with the patch applied to its directory, \<open>apply\<close>, and the note.\<close>

definition replace_at :: "string \<Rightarrow> string \<Rightarrow> string \<Rightarrow> nat \<Rightarrow> string" where
  "replace_at contents search replace targetMatchIndex =
     take targetMatchIndex contents @ replace @ drop (targetMatchIndex + length search) contents"

definition editState :: "Environment \<Rightarrow> string \<Rightarrow> string \<Rightarrow> string \<Rightarrow> dagger_Container" where
  "editState env targetFile contents newContents =
     (let patch = GeneratePatch targetFile contents newContents;
          ctr = container env
      in WithDirectory ctr ''.'' (WithPatch (Directory ctr ''.'') patch))"

definition applyEdit ::
  "world \<Rightarrow> time \<Rightarrow> Environment \<Rightarrow> string \<Rightarrow> string \<Rightarrow> string \<Rightarrow> error option \<times> Environment" where
  "applyEdit w now env targetFile contents newContents =
     (case apply' w now env (editState env targetFile contents newContents) of
        (Some err, env') \<Rightarrow>
          (Some (Errorf ''failed applying file edit, skipping git propagation: %w'' [] (Some err)), env')
      | (None, env') \<Rightarrow> (None, env'\<lparr>Notes := Notes_Add (''Edit '' @ targetFile) (Notes env')\<rparr>))"

definition FileEdit ::
  "world \<Rightarrow> time \<Rightarrow> Environment \<Rightarrow> string \<Rightarrow> string \<Rightarrow> string \<Rightarrow> string \<Rightarrow> string \<Rightarrow> error option \<times> Environment" where
  "FileEdit w now env explanation targetFile search replace matchID =
     (case dagFileContents w (container env) targetFile of
        Inl err \<Rightarrow> (Some err, env)
      | Inr contents \<Rightarrow>
          (case findMatches contents search 0 [] of
             Inl p \<Rightarrow> (Some p, env)
           | Inr matches \<Rightarrow>
               if length matches = 0 then
                 (Some (Errorf ''search text not found in file %s'' [targetFile] None), env)
               else if length matches > 1 \<and> matchID = [] then
                 (Some (Errorf (''multiple matches found for search text in %s. Please specify which_match parameter with one of the following IDs:'' @ [NL, NL] @ ''%s'')
                          [targetFile, Join (matchDescriptions contents targetFile search replace matches) [NL, NL]]
                          None), env)
               else
                 (case (if length matches = 1 then Some (matches ! 0)
                        else findMatchByID targetFile search replace matchID (enumerate 0 matches)) of
                    None \<Rightarrow> (Some (Errorf ''match ID %s not found'' [matchID] None), env)
                  | Some targetMatchIndex \<Rightarrow>
                      applyEdit w now env targetFile contents
                        (replace_at contents search replace targetMatchIndex))))"

section \<open>Repository lock manager\<close>

text \<open>
  A \<open>RepositoryLock\<close> wraps one \<open>*flock.Flock\<close>, the handle of an advisory lock file.
  \<open>Held\<close> is what this handle holds; \<open>Polls\<close> is not a Go field: it records the times, in
  milliseconds after the call, at which the lock file was tried.
\<close>

datatype lockmode = Unlocked | Exclusive | Shared

record RepositoryLock =
  Held :: lockmode
  Polls :: "nat list"

text \<open>
  Modelled from the spec: \<open>TryLockContext\<close> and \<open>TryRLockContext\<close> belong to the file-lock
  library, outside the files at hand. Section 4.3: both forms poll at a fixed short
  interval until a caller-supplied deadline elapses, then fail. The context is its
  deadline, in milliseconds from the call; \<open>granted k\<close> says whether the operating system
  grants the lock at the \<open>k\<close>-th try, which depends on what other processes hold. A context
  that is already done is refused before the first try.
\<close>

function tryCtx :: "(nat \<Rightarrow> bool) \<Rightarrow> nat \<Rightarrow> nat \<Rightarrow> nat \<Rightarrow> nat list \<Rightarrow> bool \<times> error option \<times> nat list" where
  "tryCtx granted retryDelay remaining k polls =
     (if granted k then (True, None, polls @ [k * retryDelay])
      else if retryDelay = 0 \<or> remaining \<le> retryDelay then (False, Some DeadlineExceeded, polls @ [k * retryDelay])
      else tryCtx granted retryDelay (remaining - retryDelay) (Suc k) (polls @ [k * retryDelay]))"
  by pat_completeness auto
termination
  by (relation "measure (\<lambda>(granted, retryDelay, remaining, k, polls). remaining)") auto

declare tryCtx.simps [simp del]

definition TryLockContext ::
  "(nat \<Rightarrow> bool) \<Rightarrow> nat \<Rightarrow> nat \<Rightarrow> RepositoryLock \<Rightarrow> (bool \<times> error option) \<times> RepositoryLock" where
  "TryLockContext granted ctx retryDelay rl =
     (if ctx = 0 then ((False, Some DeadlineExceeded), rl\<lparr>Polls := []\<rparr>)
      else (case tryCtx granted retryDelay ctx 0 [] of
              (locked, err, polls) \<Rightarrow>
                ((locked, err), rl\<lparr>Held := (if locked then Exclusive else Held rl), Polls := polls\<rparr>)))"

definition TryRLockContext ::
  "(nat \<Rightarrow> bool) \<Rightarrow> nat \<Rightarrow> nat \<Rightarrow> RepositoryLock \<Rightarrow> (bool \<times> error option) \<times> RepositoryLock" where
  "TryRLockContext granted ctx retryDelay rl =
     (if ctx = 0 then ((False, Some DeadlineExceeded), rl\<lparr>Polls := []\<rparr>)
      else (case tryCtx granted retryDelay ctx 0 [] of
              (locked, err, polls) \<Rightarrow>
                ((locked, err), rl\<lparr>Held := (if locked then Shared else Held rl), Polls := polls\<rparr>)))"

text \<open>Modelled from the spec: \<open>flock.Unlock\<close>, of the same library, releases what the handle
  holds.\<close>

definition flock_Unlock :: "RepositoryLock \<Rightarrow> error option \<times> RepositoryLock" where
  "flock_Unlock rl = (None, rl\<lparr>Held := Unlocked\<rparr>)"

text \<open>The methods of \<open>RepositoryLock\<close>, from the source.\<close>

definition Lock :: "(nat \<Rightarrow> bool) \<Rightarrow> nat \<Rightarrow> RepositoryLock \<Rightarrow> error option \<times> RepositoryLock" where
  "Lock granted ctx rl =
     (let retryDelay = 100
      in case TryLockContext granted ctx retryDelay rl of
           ((locked, Some err), rl') \<Rightarrow>
             (Some (Errorf ''failed to acquire exclusive lock: %w'' [] (Some err)), rl')
         | ((locked, None), rl') \<Rightarrow>
             if \<not> locked then
               (Some (Errorf ''failed to acquire exclusive lock within context timeout'' [] None), rl')
             else (None, rl'))"

definition RLock :: "(nat \<Rightarrow> bool) \<Rightarrow> nat \<Rightarrow> RepositoryLock \<Rightarrow> error option \<times> RepositoryLock" where
  "RLock granted ctx rl =
     (let retryDelay = 100
      in case TryRLockContext granted ctx retryDelay rl of
           ((locked, Some err), rl') \<Rightarrow>
             (Some (Errorf ''failed to acquire shared lock: %w'' [] (Some err)), rl')
         | ((locked, None), rl') \<Rightarrow>
             if \<not> locked then
               (Some (Errorf ''failed to acquire shared lock within context timeout'' [] None), rl')
             else (None, rl'))"

definition Unlock :: "RepositoryLock \<Rightarrow> error option \<times> RepositoryLock" where
  "Unlock rl = flock_Unlock rl"

text \<open>
  The protected function is a Go closure \<open>func() error\<close>: it acts on a state of its own and
  either returns an error value (\<open>nil\<close> is \<open>None\<close>) or panics. \<open>defer rl.Unlock()\<close> runs when
  the function returns and when it panics, and its own result is dropped; a panic then
  goes on to the caller.
\<close>

datatype outcome = Returns "error option" | Panics string

definition WithLock ::
  "(nat \<Rightarrow> bool) \<Rightarrow> nat \<Rightarrow> ('s \<Rightarrow> outcome \<times> 's) \<Rightarrow> RepositoryLock \<times> 's \<Rightarrow> outcome \<times> RepositoryLock \<times> 's" where
  "WithLock granted ctx fn st =
     (case st of
        (rl, s) \<Rightarrow>
          (case Lock granted ctx rl of
             (Some err, rl') \<Rightarrow> (Returns (Some err), rl', s)
           | (None, rl') \<Rightarrow>
               (case fn s of
                  (result, s') \<Rightarrow> (result, snd (Unlock rl'), s'))))"

definition WithRLock ::
  "(nat \<Rightarrow> bool) \<Rightarrow> nat \<Rightarrow> ('s \<Rightarrow> outcome \<times> 's) \<Rightarrow> RepositoryLock \<times> 's \<Rightarrow> outcome \<times> RepositoryLock \<times> 's" where
  "WithRLock granted ctx fn st =
     (case st of
        (rl, s) \<Rightarrow>
          (case RLock granted ctx rl of
             (Some err, rl') \<Rightarrow> (Returns (Some err), rl', s)
           | (None, rl') \<Rightarrow>
               (case fn s of
                  (result, s') \<Rightarrow> (result, snd (Unlock rl'), s'))))"

section \<open>Occurrences of the search text\<close>

text \<open>\<open>search\<close> occurs in \<open>contents\<close> at byte offset \<open>i\<close>.\<close>

definition occurs_at :: "string \<Rightarrow> string \<Rightarrow> nat \<Rightarrow> bool" where
  "occurs_at contents search i = (i \<le> length contents \<and> prefix search (drop i contents))"

text \<open>All offsets at which \<open>search\<close> occurs, in increasing order; occurrences may overlap.\<close>

definition occurrences :: "string \<Rightarrow> string \<Rightarrow> nat list" where
  "occurrences contents search = filter (occurs_at contents search) [0..<Suc (length contents)]"




section \<open>Concrete collaborators and environments\<close>

text \<open>A world in which every call succeeds with a fixed answer, and an Environment on a
  given base image; the examples below vary them.\<close>

definition idleWorld :: world where
  "idleWorld =
     \<lparr>dagExitCode = (\<lambda>c. Inr 0), dagStdout = (\<lambda>c. Inr []), dagStderr = (\<lambda>c. Inr []),
      dagSync = (\<lambda>c. None), dagID = (\<lambda>c. Inr ''id1''), dagFileContents = (\<lambda>c f. Inr []),
      dagStartServices = (\<lambda>t. ([], None)), dagServiceStart = (\<lambda>c a u. Inr ''svc''),
      dagTunnelStart = (\<lambda>s p. Inr ''tunnel''), dagTunnelEndpoint = (\<lambda>t. Inr ''tcp://localhost:1''),
      dagServiceEndpoint = (\<lambda>s p. Inr ''tcp://svc:1''), serviceStartTimeout = ''30s'',
      osEnviron = [''PATH=/bin''], osLookupEnv = (\<lambda>v. None),
      osCombinedOutput = (\<lambda>t a d e. ([], None)), osStart = (\<lambda>t a d e. Inr 4242),
      osFindProcess = (\<lambda>p. None), osPortAvailable = (\<lambda>t p. True), osListenAny = (\<lambda>t. Inr 40000)\<rparr>"

definition fileWorld :: "string \<Rightarrow> world" where
  "fileWorld contents = idleWorld\<lparr>dagFileContents := (\<lambda>c f. Inr contents)\<rparr>"

definition exampleConfig :: "string \<Rightarrow> EnvironmentConfig" where
  "exampleConfig baseImage =
     \<lparr>BaseImage = baseImage, Workdir = ''/workdir'', SetupCommands = [], InstallCommands = [],
      Env = [], Secrets = []\<rparr>"

definition exampleEnv :: "string \<Rightarrow> Environment" where
  "exampleEnv baseImage =
     \<lparr>ID = ''env'',
      State = \<lparr>Config = exampleConfig baseImage, Title = ''example'', CreatedAt = 0, UpdatedAt = 0,
               Container = ''id0'', BackgroundProcesses = []\<rparr>,
      Services = [], Notes = [], Effects = []\<rparr>"


section \<open>Facts about the concrete environments\<close>

lemma IsHost_exampleEnv:
  "IsHost (exampleEnv ''host'')" "\<not> IsHost (exampleEnv ''alpine'')"
  by (simp_all add: IsHost_def exampleEnv_def exampleConfig_def)

section \<open>The search loop of FileEdit\<close>

text \<open>\<open>strings.Index\<close> finds the first offset at which the text occurs, if there is one.\<close>

lemma Index_None_iff:
  "Index s sub = None \<longleftrightarrow> (\<forall>i\<le>length s. \<not> prefix sub (drop i s))"
proof (induction s)
  case Nil
  then show ?case by auto
next
  case (Cons c s)
  show ?case
  proof (cases "prefix sub (c # s)")
    case True
    then show ?thesis by auto
  next
    case False
    have "(\<forall>i\<le>length (c # s). \<not> prefix sub (drop i (c # s))) \<longleftrightarrow>
          (\<forall>i\<le>length s. \<not> prefix sub (drop i s))"
    proof
      assume h: "\<forall>i\<le>length (c # s). \<not> prefix sub (drop i (c # s))"
      show "\<forall>i\<le>length s. \<not> prefix sub (drop i s)"
      proof (intro allI impI)
        fix i assume "i \<le> length s"
        then have "Suc i \<le> length (c # s)" by simp
        with h have "\<not> prefix sub (drop (Suc i) (c # s))" by blast
        then show "\<not> prefix sub (drop i s)" by simp
      qed
    next
      assume h: "\<forall>i\<le>length s. \<not> prefix sub (drop i s)"
      show "\<forall>i\<le>length (c # s). \<not> prefix sub (drop i (c # s))"
      proof (intro allI impI)
        fix i assume "i \<le> length (c # s)"
        then show "\<not> prefix sub (drop i (c # s))"
          using False h by (cases i) auto
      qed
    qed
    with False Cons show ?thesis by simp
  qed
qed

lemma Index_Some:
  "Index s sub = Some k \<Longrightarrow>
     k \<le> length s \<and> prefix sub (drop k s) \<and> (\<forall>j<k. \<not> prefix sub (drop j s))"
proof (induction s arbitrary: k)
  case Nil
  then show ?case by (auto split: if_splits)
next
  case (Cons c s)
  show ?case
  proof (cases "prefix sub (c # s)")
    case True
    with Cons.prems show ?thesis by auto
  next
    case False
    with Cons.prems obtain k' where k': "Index s sub = Some k'" "k = Suc k'"
      by auto
    from Cons.IH [OF k'(1)] have ih: "k' \<le> length s" "prefix sub (drop k' s)"
      "\<forall>j<k'. \<not> prefix sub (drop j s)" by auto
    have "\<forall>j<k. \<not> prefix sub (drop j (c # s))"
    proof (intro allI impI)
      fix j assume "j < k"
      then show "\<not> prefix sub (drop j (c # s))"
        using False ih(3) k'(2) by (cases j) auto
    qed
    with ih k' show ?thesis by simp
  qed
qed

text \<open>For a non-empty search text the loop collects every offset at which the text occurs,
  in increasing order, overlapping or not; for the empty search text it runs past the end of
  the contents and panics.\<close>

lemma filter_upt_split:
  assumes "c \<le> a" "a < n" "P a" "\<forall>j. c \<le> j \<and> j < a \<longrightarrow> \<not> P j"
  shows "filter P [c..<n] = a # filter P [Suc a..<n]"
proof -
  have "[c..<n] = [c..<a] @ a # [Suc a..<n]"
    using assms(1,2) by (metis le_add_diff_inverse less_imp_le_nat upt_add_eq_append upt_conv_Cons)
  moreover have "filter P [c..<a] = []"
    using assms(4) by (auto simp: filter_empty_conv)
  ultimately show ?thesis using assms(3) by simp
qed

lemma findMatches_occurrences_from:
  "search \<noteq> [] \<Longrightarrow> cursor \<le> length contents \<Longrightarrow>
   findMatches contents search cursor acc =
     Inr (acc @ filter (occurs_at contents search) [cursor..<Suc (length contents)])"
proof (induction contents search cursor acc rule: findMatches.induct)
  case (1 contents search cursor matches)
  let ?P = "occurs_at contents search"
  let ?n = "Suc (length contents)"
  show ?case
  proof (cases "Index (drop cursor contents) search")
    case None
    then have "\<forall>i\<le>length (drop cursor contents). \<not> prefix search (drop i (drop cursor contents))"
      by (simp add: Index_None_iff)
    then have "\<forall>j. cursor \<le> j \<and> j < ?n \<longrightarrow> \<not> ?P j"
    proof (intro allI impI)
      fix j assume a: "\<forall>i\<le>length (drop cursor contents). \<not> prefix search (drop i (drop cursor contents))"
        and b: "cursor \<le> j \<and> j < ?n"
      from b have "j - cursor \<le> length contents - cursor" by arith
      then have "j - cursor \<le> length (drop cursor contents)" by simp
      with a have "\<not> prefix search (drop (j - cursor) (drop cursor contents))" by blast
      moreover have "j - cursor + cursor = j" using b by simp
      ultimately show "\<not> ?P j" by (simp add: occurs_at_def)
    qed
    then have "filter ?P [cursor..<?n] = []"
      by (auto simp: filter_empty_conv)
    with None "1.prems" show ?thesis
      by (simp add: findMatches.simps [of contents search cursor])
  next
    case (Some index)
    from Index_Some [OF Some]
    have i1: "index \<le> length (drop cursor contents)"
      and i2: "prefix search (drop index (drop cursor contents))"
      and i3: "\<forall>j<index. \<not> prefix search (drop j (drop cursor contents))" by auto
    let ?a = "cursor + index"
    have a_le: "?a \<le> length contents" using i1 "1.prems" by simp
    have pa: "prefix search (drop ?a contents)" using i2 by (simp add: add.commute)
    have a_lt: "?a < length contents"
    proof (rule ccontr)
      assume "\<not> ?a < length contents"
      then have "drop ?a contents = []" by simp
      with pa "1.prems"(1) show False by simp
    qed
    have Pa: "?P ?a" using pa a_le by (simp add: occurs_at_def)
    have none: "\<forall>j. cursor \<le> j \<and> j < ?a \<longrightarrow> \<not> ?P j"
    proof (intro allI impI)
      fix j assume b: "cursor \<le> j \<and> j < ?a"
      then have "j - cursor < index" by arith
      with i3 have "\<not> prefix search (drop (j - cursor) (drop cursor contents))" by blast
      moreover have "j - cursor + cursor = j" using b by simp
      ultimately show "\<not> ?P j" by (simp add: occurs_at_def)
    qed
    have split: "filter ?P [cursor..<?n] = ?a # filter ?P [Suc ?a..<?n]"
      by (rule filter_upt_split) (use a_lt Pa none in auto)
    have "findMatches contents search (cursor + index + 1) (matches @ [cursor + index]) =
          Inr ((matches @ [cursor + index]) @ filter ?P [cursor + index + 1..<?n])"
      using "1.IH" [OF _ Some "1.prems"(1)] "1.prems"(2) a_lt by simp
    then show ?thesis
      using Some "1.prems"(2) split
      by (simp add: findMatches.simps [of contents search cursor])
  qed
qed

lemma findMatches_occurrences:
  "search \<noteq> [] \<Longrightarrow> findMatches contents search 0 [] = Inr (occurrences contents search)"
  by (simp add: findMatches_occurrences_from occurrences_def)

lemma Index_empty: "Index s [] = Some 0"
  by (cases s) auto

lemma findMatches_empty_search:
  "findMatches contents [] cursor acc = Inl (Panic ''slice bounds out of range'')"
proof (induction "Suc (length contents) - cursor" arbitrary: cursor acc)
  case 0
  then show ?case by (simp add: findMatches.simps [of contents "[]" cursor])
next
  case (Suc n)
  then have "cursor \<le> length contents" by arith
  moreover have "n = Suc (length contents) - (cursor + 0 + 1)" using Suc(2) by arith
  ultimately show ?case
    using Suc(1) [of "cursor + 0 + 1" "acc @ [cursor + 0]"]
    by (simp add: findMatches.simps [of contents "[]" cursor] Index_empty)
qed

section \<open>Match ids\<close>









section \<open>FileEdit\<close>

text \<open>With the file read and a non-empty search text, \<open>FileEdit\<close> branches on the list of
  all occurrences.\<close>

lemma FileEdit_by_occurrences:
  assumes "dagFileContents w (container env) targetFile = Inr contents" and "search \<noteq> []"
  shows "FileEdit w now env explanation targetFile search replace matchID =
     (let matches = occurrences contents search in
      if matches = [] then
        (Some (Errorf ''search text not found in file %s'' [targetFile] None), env)
      else if length matches > 1 \<and> matchID = [] then
        (Some (Errorf (''multiple matches found for search text in %s. Please specify which_match parameter with one of the following IDs:'' @ [NL, NL] @ ''%s'')
                 [targetFile, Join (matchDescriptions contents targetFile search replace matches) [NL, NL]]
                 None), env)
      else
        (case (if length matches = 1 then Some (matches ! 0)
               else findMatchByID targetFile search replace matchID (enumerate 0 matches)) of
           None \<Rightarrow> (Some (Errorf ''match ID %s not found'' [matchID] None), env)
         | Some targetMatchIndex \<Rightarrow>
             applyEdit w now env targetFile contents
               (replace_at contents search replace targetMatchIndex)))"
  using assms by (simp add: FileEdit_def findMatches_occurrences Let_def)


lemma FileEdit_single:
  assumes "dagFileContents w (container env) targetFile = Inr contents" and "search \<noteq> []"
    and "occurrences contents search = [i]"
  shows "FileEdit w now env explanation targetFile search replace matchID =
     applyEdit w now env targetFile contents (replace_at contents search replace i)"
  using assms by (simp add: FileEdit_by_occurrences)




lemma replace_at_outside:
  assumes "c \<le> length contents"
  shows "take c (replace_at contents search replace c) = take c contents"
    and "drop (c + length replace) (replace_at contents search replace c) = drop (c + length search) contents"
  using assms by (simp_all add: replace_at_def min_def)

lemma Itoa_small: "Itoa (int (Suc 0)) = ''1''" "Itoa (int (Suc (Suc 0))) = ''2''"
  "Itoa (int (Suc (Suc (Suc 0)))) = ''3''" "Itoa 1 = ''1''" "Itoa 2 = ''2''" "Itoa 3 = ''3''"
  by (simp_all add: Itoa_def digits.simps)




lemma fileWorld_read: "dagFileContents (fileWorld contents) c f = Inr contents"
  by (simp add: fileWorld_def idleWorld_def)




text \<open>With the empty search text the call panics, whatever the file holds.\<close>

lemma FileEdit_empty_search_panics:
  assumes "dagFileContents w (container env) targetFile = Inr contents"
  shows "FileEdit w now env explanation targetFile [] replace matchID =
     (Some (Panic ''slice bounds out of range''), env)"
  using assms by (simp add: FileEdit_def findMatches_empty_search)

text \<open>
  When the search text is not empty and occurs in the file at exactly one offset \<open>i\<close>,
  \<open>FileEdit\<close> takes that occurrence for every \<open>matchID\<close>, also one that equals no recomputed
  id: the new contents are the old with the bytes of the occurrence replaced, the patch from
  the old contents to the new is applied to the directory of the container, and the result
  is that of \<open>apply\<close>, with the note on success. The error "match ID not found" cannot arise.
\<close>

lemma FileEdit_single_occurrence_ignores_matchID:
  assumes "dagFileContents w (container env) targetFile = Inr contents" and "search \<noteq> []"
    and "occurrences contents search = [i]"
  shows "FileEdit w now env explanation targetFile search replace matchID =
           (case apply' w now env
                   (WithDirectory (container env) ''.''
                      (WithPatch (Directory (container env) ''.'')
                         (GeneratePatch targetFile contents
                            (take i contents @ replace @ drop (i + length search) contents)))) of
              (Some err, env') \<Rightarrow>
                (Some (Errorf ''failed applying file edit, skipping git propagation: %w'' [] (Some err)), env')
            | (None, env') \<Rightarrow> (None, env'\<lparr>Notes := Notes env' @ [Note (''Edit '' @ targetFile)]\<rparr>)) \<and>
         FileEdit w now env explanation targetFile search replace matchID =
           FileEdit w now env explanation targetFile search replace []"
proof -
  have e: "FileEdit w now env explanation targetFile search replace m =
      applyEdit w now env targetFile contents (replace_at contents search replace i)" for m
    using assms by (simp add: FileEdit_single)
  have "FileEdit w now env explanation targetFile search replace matchID =
           (case apply' w now env
                   (WithDirectory (container env) ''.''
                      (WithPatch (Directory (container env) ''.'')
                         (GeneratePatch targetFile contents
                            (take i contents @ replace @ drop (i + length search) contents)))) of
              (Some err, env') \<Rightarrow>
                (Some (Errorf ''failed applying file edit, skipping git propagation: %w'' [] (Some err)), env')
            | (None, env') \<Rightarrow> (None, env'\<lparr>Notes := Notes env' @ [Note (''Edit '' @ targetFile)]\<rparr>))"
    unfolding e applyEdit_def editState_def replace_at_def Notes_Add_def Let_def ..
  moreover have "FileEdit w now env explanation targetFile search replace matchID =
           FileEdit w now env explanation targetFile search replace []"
    unfolding e ..
  ultimately show ?thesis ..
qed

text \<open>
  Claim C10. The claim: when the contents hold the search text exactly once, \<open>FileEdit\<close>
  replaces that occurrence whatever \<open>matchID\<close> is. For a non-empty search text the code does
  so (the lemma above). The empty file holds the empty search text exactly once, at offset
  0; there the search loop records the match, moves the cursor to 1 and slices the
  contents beyond their end. \<open>FileEdit\<close> panics, with or without a \<open>matchID\<close>, and nothing is
  replaced.
\<close>

theorem FileEdit_single_empty_occurrence_panics:
  "dagFileContents (fileWorld []) (container (exampleEnv ''alpine'')) ''f.txt'' = Inr [] \<and>
   occurrences [] [] = [0] \<and>
   findMatches [] [] 0 [] = Inl (Panic ''slice bounds out of range'') \<and>
   FileEdit (fileWorld []) 7 (exampleEnv ''alpine'') ''why'' ''f.txt'' [] ''x'' ''bogus'' =
     (Some (Panic ''slice bounds out of range''), exampleEnv ''alpine'') \<and>
   FileEdit (fileWorld []) 7 (exampleEnv ''alpine'') ''why'' ''f.txt'' [] ''x'' [] =
     (Some (Panic ''slice bounds out of range''), exampleEnv ''alpine'')"
  by (simp add: fileWorld_read FileEdit_empty_search_panics findMatches_empty_search
      occurrences_def occurs_at_def)







section \<open>Build and apply\<close>

text \<open>The build steps change the notes, the services and the trace, never \<open>State\<close>; \<open>apply\<close>
  either fails and changes nothing or replaces \<open>UpdatedAt\<close> and \<open>Container\<close>.\<close>

lemma runCommandsHost_State:
  "runCommandsHost w hostEnv commands env = (r, env') \<Longrightarrow>
     State env' = State env \<and> Services env' = Services env \<and> ID env' = ID env"
proof (induction commands arbitrary: env)
  case Nil
  then show ?case by simp
next
  case (Cons command commands)
  then show ?case
    by (auto simp: Let_def split: prod.splits option.splits)
qed

lemma runCommands_State:
  "runCommands w commands c env = (r, c', env') \<Longrightarrow>
     State env' = State env \<and> Services env' = Services env \<and> ID env' = ID env"
proof (induction commands arbitrary: c env)
  case Nil
  then show ?case by simp
next
  case (Cons command commands)
  then show ?case
    by (auto simp: Let_def split: prod.splits option.splits sum.splits)
qed

lemma buildBase_State:
  "buildBase w env baseSourceDir = (r, env') \<Longrightarrow> State env' = State env"
  by (auto simp: buildBase_def Let_def split: if_splits prod.splits option.splits sum.splits
      dest!: runCommandsHost_State runCommands_State)

lemma apply'_Some:
  "apply' w now env newState = (Some err, env') \<Longrightarrow> env' = env"
  by (auto simp: apply'_def split: option.splits sum.splits)

lemma apply'_None:
  "apply' w now env newState = (None, env') \<Longrightarrow>
     dagSync w newState = None \<and> dagID w newState = Inr (Container (State env')) \<and>
     UpdatedAt (State env') = now \<and> Config (State env') = Config (State env) \<and>
     BackgroundProcesses (State env') = BackgroundProcesses (State env) \<and>
     Notes env' = Notes env \<and> Effects env' = Effects env \<and> Services env' = Services env"
  by (auto simp: apply'_def split: option.splits sum.splits)

lemma apply'_ok:
  "dagSync w newState = None \<Longrightarrow> dagID w newState = Inr containerID \<Longrightarrow>
   apply' w now env newState =
     (None, env\<lparr>State := (State env)\<lparr>UpdatedAt := now, Container := containerID\<rparr>\<rparr>)"
  by (simp add: apply'_def)

section \<open>Run\<close>

lemma Run_container_ok:
  assumes "\<not> IsHost env"
    and "newState = WithExec (container env) (if command \<noteq> [] then [shell, ''-c'', command] else [])
                      (RunOpts useEntrypoint)"
    and "dagExitCode w newState = Inr exitCode" and "dagStdout w newState = Inr stdout"
    and "dagStderr w newState = Inr stderr" and "dagSync w newState = None"
    and "dagID w newState = Inr containerID"
  shows "Run w now env command shell useEntrypoint =
           ((stdout @ (if stderr = [] then []
                       else (if stdout = [] then [] else [NL]) @ ''stderr: '' @ stderr), None),
            env\<lparr>Effects := Effects env @ [ContainerExec newState],
                Notes := Notes env @ [CommandNote command exitCode stdout stderr],
                State := (State env)\<lparr>UpdatedAt := now, Container := containerID\<rparr>\<rparr>)"
  using assms by (simp add: Run_def Let_def apply'_def Notes_AddCommand_def)

text \<open>
  Claim C1, as the code has it. In container mode \<open>Run\<close> describes one exec (requested
  with \<open>Expect: ReturnTypeAny\<close>, so that the runtime reports a non-zero exit as an exit code
  and not as an error) and asks the runtime, in this order, for its exit code, its stdout
  and its stderr, and then, in \<open>apply\<close>, for the sync and the id of the new state.
  When one of the first three requests fails, \<open>Run\<close> returns that error and writes no note.
  When the runtime reports exit code, stdout and stderr, one note with the command and the
  three is appended, whatever the exit code is, zero or not. If sync and id then succeed,
  \<open>Run\<close> returns no error: \<open>Container\<close> is replaced by the id, \<open>UpdatedAt\<close> is set, and the
  output is stdout followed, when stderr is not empty, by a section that starts with
  \<open>stderr: \<close> (on a new line when stdout is not empty). If sync or id fails, \<open>Run\<close> returns
  stdout together with an error ("failed to apply container state") and \<open>Container\<close> keeps
  its value. The five cases cover every answer of the runtime, so an error is returned only
  when one of the five requests fails, never for an exit code.
\<close>

theorem Run_container_outcomes:
  assumes "\<not> IsHost env"
    and "newState = WithExec (container env) (if command \<noteq> [] then [shell, ''-c'', command] else [])
                      (RunOpts useEntrypoint)"
    and "env1 = env\<lparr>Effects := Effects env @ [ContainerExec newState]\<rparr>"
  shows
    "(\<forall>err. dagExitCode w newState = Inl err \<longrightarrow>
        Run w now env command shell useEntrypoint =
          (([], Some (Errorf ''failed to get exit code: %w'' [] (Some err))), env1)) \<and>
     (\<forall>exitCode err. dagExitCode w newState = Inr exitCode \<and> dagStdout w newState = Inl err \<longrightarrow>
        Run w now env command shell useEntrypoint =
          (([], Some (Errorf ''failed to get stdout: %w'' [] (Some err))), env1)) \<and>
     (\<forall>exitCode stdout err.
        dagExitCode w newState = Inr exitCode \<and> dagStdout w newState = Inr stdout \<and>
        dagStderr w newState = Inl err \<longrightarrow>
        Run w now env command shell useEntrypoint =
          (([], Some (Errorf ''failed to get stderr: %w'' [] (Some err))), env1)) \<and>
     (\<forall>exitCode stdout stderr.
        dagExitCode w newState = Inr exitCode \<and> dagStdout w newState = Inr stdout \<and>
        dagStderr w newState = Inr stderr \<longrightarrow>
        (\<forall>err. dagSync w newState = Some err \<or> dagSync w newState = None \<and> dagID w newState = Inl err \<longrightarrow>
           Run w now env command shell useEntrypoint =
             ((stdout, Some (Errorf ''failed to apply container state: %w'' [] (Some err))),
              env1\<lparr>Notes := Notes env @ [CommandNote command exitCode stdout stderr]\<rparr>)) \<and>
        (\<forall>containerID. dagSync w newState = None \<and> dagID w newState = Inr containerID \<longrightarrow>
           Run w now env command shell useEntrypoint =
             ((stdout @ (if stderr = [] then []
                         else (if stdout = [] then [] else [NL]) @ ''stderr: '' @ stderr), None),
              env1\<lparr>Notes := Notes env @ [CommandNote command exitCode stdout stderr],
                   State := (State env)\<lparr>UpdatedAt := now, Container := containerID\<rparr>\<rparr>)))"
proof -
  have a: "Run w now env command shell useEntrypoint =
          (([], Some (Errorf ''failed to get exit code: %w'' [] (Some err))), env1)"
    if "dagExitCode w newState = Inl err" for err
    using that assms by (simp add: Run_def Let_def)
  have b: "Run w now env command shell useEntrypoint =
          (([], Some (Errorf ''failed to get stdout: %w'' [] (Some err))), env1)"
    if "dagExitCode w newState = Inr exitCode" "dagStdout w newState = Inl err" for exitCode err
    using that assms by (simp add: Run_def Let_def)
  have c: "Run w now env command shell useEntrypoint =
          (([], Some (Errorf ''failed to get stderr: %w'' [] (Some err))), env1)"
    if "dagExitCode w newState = Inr exitCode" "dagStdout w newState = Inr stdout"
      "dagStderr w newState = Inl err" for exitCode stdout err
    using that assms by (simp add: Run_def Let_def)
  have d: "Run w now env command shell useEntrypoint =
             ((stdout, Some (Errorf ''failed to apply container state: %w'' [] (Some err))),
              env1\<lparr>Notes := Notes env @ [CommandNote command exitCode stdout stderr]\<rparr>)"
    if "dagExitCode w newState = Inr exitCode" "dagStdout w newState = Inr stdout"
      "dagStderr w newState = Inr stderr"
      "dagSync w newState = Some err \<or> dagSync w newState = None \<and> dagID w newState = Inl err"
    for exitCode stdout stderr err
    using that assms by (auto simp add: Run_def Let_def apply'_def Notes_AddCommand_def)
  have e: "Run w now env command shell useEntrypoint =
             ((stdout @ (if stderr = [] then []
                         else (if stdout = [] then [] else [NL]) @ ''stderr: '' @ stderr), None),
              env1\<lparr>Notes := Notes env @ [CommandNote command exitCode stdout stderr],
                   State := (State env)\<lparr>UpdatedAt := now, Container := containerID\<rparr>\<rparr>)"
    if "dagExitCode w newState = Inr exitCode" "dagStdout w newState = Inr stdout"
      "dagStderr w newState = Inr stderr" "dagSync w newState = None" "dagID w newState = Inr containerID"
    for exitCode stdout stderr containerID
    using Run_container_ok [OF assms(1,2) that, of now] assms(3) by simp
  from a b c d e show ?thesis by blast
qed

theorem Run_container_outcomes_witness:
  "\<not> IsHost (exampleEnv ''alpine'') \<and>
   Run (idleWorld\<lparr>dagExitCode := (\<lambda>c. Inr 1), dagStdout := (\<lambda>c. Inr ''fail''),
                   dagStderr := (\<lambda>c. Inr ''boom'')\<rparr>) 7 (exampleEnv ''alpine'')
       ''echo fail; exit 1'' ''sh'' False =
     ((''fail'' @ [NL] @ ''stderr: boom'', None),
      (exampleEnv ''alpine'')
        \<lparr>Effects := [ContainerExec (WithExec (container (exampleEnv ''alpine''))
                        [''sh'', ''-c'', ''echo fail; exit 1''] (RunOpts False))],
         Notes := [CommandNote ''echo fail; exit 1'' 1 ''fail'' ''boom''],
         State := (State (exampleEnv ''alpine''))\<lparr>UpdatedAt := 7, Container := ''id1''\<rparr>\<rparr>) \<and>
   Run (idleWorld\<lparr>dagExitCode := (\<lambda>c. Inr 1), dagStdout := (\<lambda>c. Inr ''fail''),
                   dagStderr := (\<lambda>c. Inr ''boom''),
                   dagSync := (\<lambda>c. Some (External ''connection lost''))\<rparr>) 7 (exampleEnv ''alpine'')
       ''echo fail; exit 1'' ''sh'' False =
     ((''fail'', Some (Errorf ''failed to apply container state: %w'' [] (Some (External ''connection lost'')))),
      (exampleEnv ''alpine'')
        \<lparr>Effects := [ContainerExec (WithExec (container (exampleEnv ''alpine''))
                        [''sh'', ''-c'', ''echo fail; exit 1''] (RunOpts False))],
         Notes := [CommandNote ''echo fail; exit 1'' 1 ''fail'' ''boom'']\<rparr>) \<and>
   Run (idleWorld\<lparr>dagExitCode := (\<lambda>c. Inl (External ''no runtime''))\<rparr>) 7 (exampleEnv ''alpine'')
       ''echo fail; exit 1'' ''sh'' False =
     (([], Some (Errorf ''failed to get exit code: %w'' [] (Some (External ''no runtime'')))),
      (exampleEnv ''alpine'')
        \<lparr>Effects := [ContainerExec (WithExec (container (exampleEnv ''alpine''))
                        [''sh'', ''-c'', ''echo fail; exit 1''] (RunOpts False))]\<rparr>)"
proof -
  let ?ok = "idleWorld\<lparr>dagExitCode := (\<lambda>c. Inr 1), dagStdout := (\<lambda>c. Inr ''fail''),
                   dagStderr := (\<lambda>c. Inr ''boom'')\<rparr>"
  let ?lost = "idleWorld\<lparr>dagExitCode := (\<lambda>c. Inr 1), dagStdout := (\<lambda>c. Inr ''fail''),
                   dagStderr := (\<lambda>c. Inr ''boom''),
                   dagSync := (\<lambda>c. Some (External ''connection lost''))\<rparr>"
  let ?none = "idleWorld\<lparr>dagExitCode := (\<lambda>c. Inl (External ''no runtime''))\<rparr>"
  let ?ns = "WithExec (container (exampleEnv ''alpine'')) [''sh'', ''-c'', ''echo fail; exit 1''] (RunOpts False)"
  have h: "\<not> IsHost (exampleEnv ''alpine'')" by (simp add: IsHost_exampleEnv)
  have ns: "?ns = WithExec (container (exampleEnv ''alpine''))
        (if ''echo fail; exit 1'' \<noteq> [] then [''sh'', ''-c'', ''echo fail; exit 1''] else []) (RunOpts False)"
    by simp
  have ee: "Effects (exampleEnv ''alpine'') = []" "Notes (exampleEnv ''alpine'') = []"
    by (simp_all add: exampleEnv_def)
  note t = Run_container_outcomes [OF h ns refl]
  have o1: "dagExitCode ?ok ?ns = Inr 1 \<and> dagStdout ?ok ?ns = Inr ''fail'' \<and> dagStderr ?ok ?ns = Inr ''boom''"
    and o2: "dagSync ?ok ?ns = None \<and> dagID ?ok ?ns = Inr ''id1''"
    by (simp_all add: idleWorld_def)
  have l1: "dagExitCode ?lost ?ns = Inr 1 \<and> dagStdout ?lost ?ns = Inr ''fail'' \<and> dagStderr ?lost ?ns = Inr ''boom''"
    and l2: "dagSync ?lost ?ns = Some (External ''connection lost'') \<or>
             dagSync ?lost ?ns = None \<and> dagID ?lost ?ns = Inl (External ''connection lost'')"
    by (simp_all add: idleWorld_def)
  have n1: "dagExitCode ?none ?ns = Inl (External ''no runtime'')"
    by (simp add: idleWorld_def)
  from t [of ?ok 7, THEN conjunct2, THEN conjunct2, THEN conjunct2, rule_format, OF o1,
      THEN conjunct2, rule_format, OF o2]
  have r1: "Run ?ok 7 (exampleEnv ''alpine'') ''echo fail; exit 1'' ''sh'' False =
     ((''fail'' @ [NL] @ ''stderr: boom'', None),
      (exampleEnv ''alpine'')
        \<lparr>Effects := [ContainerExec ?ns],
         Notes := [CommandNote ''echo fail; exit 1'' 1 ''fail'' ''boom''],
         State := (State (exampleEnv ''alpine''))\<lparr>UpdatedAt := 7, Container := ''id1''\<rparr>\<rparr>)"
    by (simp add: ee)
  from t [of ?lost 7, THEN conjunct2, THEN conjunct2, THEN conjunct2, rule_format, OF l1,
      THEN conjunct1, rule_format, OF l2]
  have r2: "Run ?lost 7 (exampleEnv ''alpine'') ''echo fail; exit 1'' ''sh'' False =
     ((''fail'', Some (Errorf ''failed to apply container state: %w'' [] (Some (External ''connection lost'')))),
      (exampleEnv ''alpine'')
        \<lparr>Effects := [ContainerExec ?ns],
         Notes := [CommandNote ''echo fail; exit 1'' 1 ''fail'' ''boom'']\<rparr>)"
    by (simp add: ee)
  from t [of ?none 7, THEN conjunct1, rule_format, OF n1]
  have r3: "Run ?none 7 (exampleEnv ''alpine'') ''echo fail; exit 1'' ''sh'' False =
     (([], Some (Errorf ''failed to get exit code: %w'' [] (Some (External ''no runtime'')))),
      (exampleEnv ''alpine'')\<lparr>Effects := [ContainerExec ?ns]\<rparr>)"
    by (simp add: ee)
  from h r1 r2 r3 show ?thesis by simp
qed

text \<open>
  The claim as written fails when the command has run and the new state cannot be stored:
  the command exits with code 1, its output is read and noted, then the sync fails; \<open>Run\<close>
  returns an error and \<open>Container\<close> is the one from before the call.
\<close>

theorem Run_apply_failure_after_nonzero_exit:
  "\<not> IsHost (exampleEnv ''alpine'') \<and>
   dagExitCode (idleWorld\<lparr>dagExitCode := (\<lambda>c. Inr 1), dagStdout := (\<lambda>c. Inr ''fail''),
                          dagStderr := (\<lambda>c. Inr ''boom''),
                          dagSync := (\<lambda>c. Some (External ''connection lost''))\<rparr>)
     (WithExec (container (exampleEnv ''alpine'')) [''sh'', ''-c'', ''echo fail; exit 1''] (RunOpts False)) = Inr 1 \<and>
   fst (Run (idleWorld\<lparr>dagExitCode := (\<lambda>c. Inr 1), dagStdout := (\<lambda>c. Inr ''fail''),
                        dagStderr := (\<lambda>c. Inr ''boom''),
                        dagSync := (\<lambda>c. Some (External ''connection lost''))\<rparr>) 7 (exampleEnv ''alpine'')
          ''echo fail; exit 1'' ''sh'' False) =
     (''fail'', Some (Errorf ''failed to apply container state: %w'' [] (Some (External ''connection lost'')))) \<and>
   Container (State (snd (Run (idleWorld\<lparr>dagExitCode := (\<lambda>c. Inr 1), dagStdout := (\<lambda>c. Inr ''fail''),
                        dagStderr := (\<lambda>c. Inr ''boom''),
                        dagSync := (\<lambda>c. Some (External ''connection lost''))\<rparr>) 7 (exampleEnv ''alpine'')
          ''echo fail; exit 1'' ''sh'' False))) = Container (State (exampleEnv ''alpine'')) \<and>
   Notes (snd (Run (idleWorld\<lparr>dagExitCode := (\<lambda>c. Inr 1), dagStdout := (\<lambda>c. Inr ''fail''),
                        dagStderr := (\<lambda>c. Inr ''boom''),
                        dagSync := (\<lambda>c. Some (External ''connection lost''))\<rparr>) 7 (exampleEnv ''alpine'')
          ''echo fail; exit 1'' ''sh'' False)) = [CommandNote ''echo fail; exit 1'' 1 ''fail'' ''boom'']"
  by (simp add: Run_def IsHost_exampleEnv Let_def idleWorld_def apply'_def Notes_AddCommand_def)
     (simp add: exampleEnv_def)


section \<open>Entries of env and secrets\<close>














section \<open>UpdateConfig\<close>

lemma UpdateConfig_unfold:
  assumes "env0 = env\<lparr>State := (State env)\<lparr>Config := newConfig\<rparr>\<rparr>"
    and "baseSourceDir = (if IsHost env0 then NilDirectory else Workdir_of env0)"
  shows "UpdateConfig w now env newConfig =
     (case buildBase w env0 baseSourceDir of
        (Inl err, env1) \<Rightarrow> (Some err, env1)
      | (Inr c, env1) \<Rightarrow>
          if IsHost env1 then applyHost now env1
          else (case c of Some c' \<Rightarrow> apply' w now env1 c'
                | None \<Rightarrow> (Some (Panic ''nil pointer dereference''), env1)))"
  using assms by (simp add: UpdateConfig_def Let_def)

lemma IsHost_State: "State env' = State env \<Longrightarrow> IsHost env' = IsHost env"
  by (simp add: IsHost_def)

text \<open>The outcomes of \<open>UpdateConfig\<close>, by the result of the rebuild.\<close>

lemma UpdateConfig_cases:
  assumes "env0 = env\<lparr>State := (State env)\<lparr>Config := newConfig\<rparr>\<rparr>"
    and "baseSourceDir = (if IsHost env0 then NilDirectory else Workdir_of env0)"
  shows "(\<forall>err env'. UpdateConfig w now env newConfig = (Some err, env') \<longrightarrow>
            Config (State env') = newConfig \<and> Container (State env') = Container (State env) \<and>
            UpdatedAt (State env') = UpdatedAt (State env)) \<and>
         (\<forall>env'. UpdateConfig w now env newConfig = (None, env') \<longrightarrow>
            Config (State env') = newConfig \<and> UpdatedAt (State env') = now \<and>
            (if EqualFold_host (BaseImage newConfig) then Container (State env') = ''host''
             else (\<exists>c. dagSync w c = None \<and> dagID w c = Inr (Container (State env'))))) \<and>
         (\<forall>err env1. buildBase w env0 baseSourceDir = (Inl err, env1) \<longrightarrow>
            UpdateConfig w now env newConfig = (Some err, env1))"
proof -
  obtain r env1 where bb: "buildBase w env0 baseSourceDir = (r, env1)"
    by (cases "buildBase w env0 baseSourceDir") auto
  from buildBase_State [OF bb] have st: "State env1 = State env0" .
  then have host: "IsHost env1 = EqualFold_host (BaseImage newConfig)"
    using assms(1) by (simp add: IsHost_def)
  have s0: "Config (State env0) = newConfig" "Container (State env0) = Container (State env)"
    "UpdatedAt (State env0) = UpdatedAt (State env)"
    using assms(1) by simp_all
  note unf = UpdateConfig_unfold [OF assms, of w now]
  show ?thesis
  proof (cases r)
    case (Inl err)
    with bb unf st s0 show ?thesis by simp
  next
    case (Inr c)
    show ?thesis
    proof (cases "EqualFold_host (BaseImage newConfig)")
      case True
      with Inr bb unf st s0 host show ?thesis
        by (auto simp: applyHost_def)
    next
      case False
      show ?thesis
      proof (cases c)
        case None
        with False Inr bb unf st s0 host show ?thesis by simp
      next
        case (Some c')
        with False Inr bb unf host
        have u: "UpdateConfig w now env newConfig = apply' w now env1 c'" by simp
        have A: "Config (State env') = newConfig \<and> Container (State env') = Container (State env) \<and>
            UpdatedAt (State env') = UpdatedAt (State env)"
          if "UpdateConfig w now env newConfig = (Some err, env')" for err env'
        proof -
          from that u have "apply' w now env1 c' = (Some err, env')" by simp
          then have "env' = env1" by (rule apply'_Some)
          with st s0 show ?thesis by simp
        qed
        have B: "Config (State env') = newConfig \<and> UpdatedAt (State env') = now \<and>
            (if EqualFold_host (BaseImage newConfig) then Container (State env') = ''host''
             else (\<exists>c. dagSync w c = None \<and> dagID w c = Inr (Container (State env'))))"
          if "UpdateConfig w now env newConfig = (None, env')" for env'
        proof -
          from that u have "apply' w now env1 c' = (None, env')" by simp
          from apply'_None [OF this] st s0 False show ?thesis by auto
        qed
        have C: "UpdateConfig w now env newConfig = (Some err, env2)"
          if "buildBase w env0 baseSourceDir = (Inl err, env2)" for err env2
          using that bb Inr by simp
        from A B C show ?thesis by blast
      qed
    qed
  qed
qed

text \<open>
  Claim C2, as the code has it. \<open>UpdateConfig\<close> stores the new configuration first and
  rebuilds from it. When the call fails, \<open>Container\<close> and \<open>UpdatedAt\<close> have their values
  from before the call, but \<open>Config\<close> is the new configuration; a build error is the error
  returned. When the call succeeds, \<open>Config\<close> is the new configuration, \<open>UpdatedAt\<close> is
  set, and \<open>Container\<close> is \<open>host\<close> in host mode and otherwise the id the runtime gave for a
  state it has synchronised.
\<close>

theorem UpdateConfig_outcomes:
  assumes "env0 = env\<lparr>State := (State env)\<lparr>Config := newConfig\<rparr>\<rparr>"
    and "baseSourceDir = (if IsHost env0 then NilDirectory else Workdir_of env0)"
  shows "(\<forall>err env'. UpdateConfig w now env newConfig = (Some err, env') \<longrightarrow>
            Config (State env') = newConfig \<and> Container (State env') = Container (State env) \<and>
            UpdatedAt (State env') = UpdatedAt (State env)) \<and>
         (\<forall>env'. UpdateConfig w now env newConfig = (None, env') \<longrightarrow>
            Config (State env') = newConfig \<and> UpdatedAt (State env') = now \<and>
            (if EqualFold_host (BaseImage newConfig) then Container (State env') = ''host''
             else (\<exists>c. dagSync w c = None \<and> dagID w c = Inr (Container (State env'))))) \<and>
         (\<forall>err env1. buildBase w env0 baseSourceDir = (Inl err, env1) \<longrightarrow>
            UpdateConfig w now env newConfig = (Some err, env1))"
  using assms by (rule UpdateConfig_cases)

text \<open>A rebuild whose install command exits with code 1.\<close>

lemma UpdateConfig_failing_install:
  "UpdateConfig (idleWorld\<lparr>dagExitCode := (\<lambda>c. Inl (ExecError 1 [] ''boom''))\<rparr>) 7 (exampleEnv ''alpine'')
       ((exampleConfig ''alpine'')\<lparr>InstallCommands := [''false'']\<rparr>) =
     (Some (Errorf ''install command failed: %w'' []
        (Some (Errorf (''exit code %d.'' @ [NL] @ ''stdout: %s'' @ [NL] @ ''stderr: %s'' @ [NL] @ ''%w'')
                 [''1'', [], ''boom''] (Some (ExecError 1 [] ''boom''))))),
      (exampleEnv ''alpine'')
        \<lparr>State := (State (exampleEnv ''alpine''))\<lparr>Config := (exampleConfig ''alpine'')\<lparr>InstallCommands := [''false'']\<rparr>\<rparr>,
         Effects := [ContainerExec (WithExec (WithDirectory (WithWorkdir (From ''alpine'') ''/workdir'') ''.''
                       (Directory (LoadContainerFromID ''id0'') ''/workdir'')) [''sh'', ''-c'', ''false''] NoOpts)],
         Notes := [CommandNote ''false'' 1 [] ''boom'']\<rparr>)"
  by (simp add: UpdateConfig_def Let_def IsHost_def buildBase_def containerWithEnvAndSecrets_def
      idleWorld_def Workdir_of_def container_def Notes_AddCommand_def Itoa_small
      exampleEnv_def exampleConfig_def)

text \<open>
  The claim as written fails: after the failed rebuild the Environment holds the new
  configuration, not the one from before the call.
\<close>

theorem UpdateConfig_failure_adopts_config:
  "fst (UpdateConfig (idleWorld\<lparr>dagExitCode := (\<lambda>c. Inl (ExecError 1 [] ''boom''))\<rparr>) 7 (exampleEnv ''alpine'')
       ((exampleConfig ''alpine'')\<lparr>InstallCommands := [''false'']\<rparr>)) \<noteq> None \<and>
   Config (State (exampleEnv ''alpine'')) = exampleConfig ''alpine'' \<and>
   Config (State (snd (UpdateConfig (idleWorld\<lparr>dagExitCode := (\<lambda>c. Inl (ExecError 1 [] ''boom''))\<rparr>) 7
       (exampleEnv ''alpine'') ((exampleConfig ''alpine'')\<lparr>InstallCommands := [''false'']\<rparr>)))) =
     (exampleConfig ''alpine'')\<lparr>InstallCommands := [''false'']\<rparr> \<and>
   (exampleConfig ''alpine'')\<lparr>InstallCommands := [''false'']\<rparr> \<noteq> exampleConfig ''alpine''"
  by (simp add: UpdateConfig_failing_install) (simp add: exampleEnv_def exampleConfig_def)

theorem UpdateConfig_outcomes_witness:
  "(\<exists>err env'. UpdateConfig (idleWorld\<lparr>dagExitCode := (\<lambda>c. Inl (ExecError 1 [] ''boom''))\<rparr>) 7
        (exampleEnv ''alpine'') ((exampleConfig ''alpine'')\<lparr>InstallCommands := [''false'']\<rparr>) = (Some err, env') \<and>
      Config (State env') = (exampleConfig ''alpine'')\<lparr>InstallCommands := [''false'']\<rparr> \<and>
      Container (State env') = ''id0'' \<and> UpdatedAt (State env') = 0) \<and>
   (\<exists>env'. UpdateConfig idleWorld 7 (exampleEnv ''alpine'')
        ((exampleConfig ''alpine'')\<lparr>InstallCommands := [''true'']\<rparr>) = (None, env') \<and>
      Config (State env') = (exampleConfig ''alpine'')\<lparr>InstallCommands := [''true'']\<rparr> \<and>
      UpdatedAt (State env') = 7 \<and> \<not> EqualFold_host (BaseImage ((exampleConfig ''alpine'')\<lparr>InstallCommands := [''true'']\<rparr>)))"
proof -
  let ?wf = "idleWorld\<lparr>dagExitCode := (\<lambda>c. Inl (ExecError 1 [] ''boom''))\<rparr>"
  let ?bad = "(exampleConfig ''alpine'')\<lparr>InstallCommands := [''false'']\<rparr>"
  let ?good = "(exampleConfig ''alpine'')\<lparr>InstallCommands := [''true'']\<rparr>"
  obtain err env' where f: "UpdateConfig ?wf 7 (exampleEnv ''alpine'') ?bad = (Some err, env')"
    using UpdateConfig_failing_install by blast
  from UpdateConfig_outcomes [OF refl refl, of ?wf 7 "exampleEnv ''alpine''" ?bad,
      THEN conjunct1, rule_format, OF f]
  have a: "Config (State env') = ?bad \<and> Container (State env') = ''id0'' \<and> UpdatedAt (State env') = 0"
    by (simp add: exampleEnv_def)
  have "fst (UpdateConfig idleWorld 7 (exampleEnv ''alpine'') ?good) = None"
    by (simp add: UpdateConfig_def Let_def IsHost_def buildBase_def containerWithEnvAndSecrets_def
      idleWorld_def Workdir_of_def container_def Notes_AddCommand_def apply'_def
      exampleEnv_def exampleConfig_def)
  then obtain env'' where g: "UpdateConfig idleWorld 7 (exampleEnv ''alpine'') ?good = (None, env'')"
    by (cases "UpdateConfig idleWorld 7 (exampleEnv ''alpine'') ?good") auto
  from UpdateConfig_outcomes [OF refl refl, of idleWorld 7 "exampleEnv ''alpine''" ?good,
      THEN conjunct2, THEN conjunct1, rule_format, OF g]
  have b: "Config (State env'') = ?good \<and> UpdatedAt (State env'') = 7" by simp
  have c: "\<not> EqualFold_host (BaseImage ?good)" by (simp add: exampleConfig_def)
  from f a g b c show ?thesis by blast
qed

section \<open>What each operation does to UpdatedAt and Container\<close>

















section \<open>FileRead\<close>

text \<open>
  Claim C5. The claim: with \<open>readEntireFile = false\<close>, \<open>FileRead\<close> fails with a range error
  when \<open>startLine < 1\<close>. The code clamps \<open>start\<close> to 0 before it tests \<open>start < 0\<close>, so
  the test never fires; the error text of that branch ("cannot be less than 1") shows what
  was meant. On the two-line file \<open>a\<close>, \<open>b\<close> (each line ended by a newline), reading from
  \<open>startLine = 0\<close> to \<open>endLine = 1\<close> returns line 1 and no error.
\<close>

theorem FileRead_startLine_zero_returns:
  "FileRead (fileWorld (''a'' @ [NL] @ ''b'' @ [NL])) (exampleEnv ''alpine'') ''f.txt'' False 0 1 = Inr ''a''"
  by (simp add: FileRead_def fileWorld_def idleWorld_def int64_def Let_def)

text \<open>Two more evaluations of the same function: on a file whose last line has no newline
  the upper clamp drops that line, and on a file shorter than \<open>startLine\<close> the bounds
  \<open>startLine = 5\<close>, \<open>endLine = 3\<close> are both clamped to the last line and give the empty
  text instead of an error.\<close>

lemma FileRead_unterminated_last_line:
  "FileRead (fileWorld (''a'' @ [NL] @ ''b'')) (exampleEnv ''alpine'') ''f.txt'' False 1 2 = Inr ''a''"
  by (simp add: FileRead_def fileWorld_def idleWorld_def int64_def Let_def)

lemma FileRead_5_3_short_file:
  "FileRead (fileWorld (''a'' @ [NL] @ ''b'')) (exampleEnv ''alpine'') ''f.txt'' False 5 3 = Inr []"
  by (simp add: FileRead_def fileWorld_def idleWorld_def int64_def Let_def)

section \<open>KillBackground\<close>

text \<open>
  Claim C9, as the code has it. In container mode \<open>KillBackground\<close> fails ("kill is only
  supported in host mode") and changes nothing. In host mode it fails ("process not found")
  only when the operating system's process lookup fails, and then changes nothing; the list
  \<open>BackgroundProcesses\<close> is not consulted. Otherwise, tracked or not, the pid is sent
  SIGTERM, then after 500 ms SIGKILL; every entry of \<open>BackgroundProcesses\<close> with that pid is
  removed and the others are kept in order; \<open>UpdatedAt\<close> is set, \<open>Container\<close> and \<open>Config\<close>
  are kept, and one note is appended.
\<close>

theorem KillBackground_cases:
  "(\<not> IsHost env \<longrightarrow>
      KillBackground w now env pid = (Some (Errorf ''kill is only supported in host mode'' [] None), env)) \<and>
   (IsHost env \<longrightarrow> (\<forall>err. osFindProcess w pid = Some err \<longrightarrow>
      KillBackground w now env pid = (Some (Errorf ''process not found: %w'' [] (Some err)), env))) \<and>
   (IsHost env \<longrightarrow> osFindProcess w pid = None \<longrightarrow>
      (\<exists>env'. KillBackground w now env pid = (None, env') \<and>
         Effects env' = Effects env @ [Signal pid SIGTERM, Sleep 500, Signal pid SIGKILL] \<and>
         BackgroundProcesses (State env') = filter (\<lambda>bp. PID bp \<noteq> pid) (BackgroundProcesses (State env)) \<and>
         UpdatedAt (State env') = now \<and> Container (State env') = Container (State env) \<and>
         Config (State env') = Config (State env) \<and>
         Notes env' = Notes env @ [Note (''Stopped background process PID='' @ Itoa pid)]))"
  by (simp add: KillBackground_def Notes_Add_def)

theorem KillBackground_cases_witness:
  "(\<not> IsHost (exampleEnv ''alpine'') \<and>
    KillBackground idleWorld 7 (exampleEnv ''alpine'') 4242 =
      (Some (Errorf ''kill is only supported in host mode'' [] None), exampleEnv ''alpine'')) \<and>
   (IsHost (exampleEnv ''host'') \<and>
    osFindProcess (idleWorld\<lparr>osFindProcess := (\<lambda>p. Some (External ''no such process''))\<rparr>) 4242 =
      Some (External ''no such process'') \<and>
    KillBackground (idleWorld\<lparr>osFindProcess := (\<lambda>p. Some (External ''no such process''))\<rparr>) 7
        (exampleEnv ''host'') 4242 =
      (Some (Errorf ''process not found: %w'' [] (Some (External ''no such process''))), exampleEnv ''host'')) \<and>
   (IsHost (exampleEnv ''host'') \<and> osFindProcess idleWorld 4242 = None \<and>
    (\<exists>env'. KillBackground idleWorld 7 (exampleEnv ''host'') 4242 = (None, env') \<and>
       Effects env' = Effects (exampleEnv ''host'') @ [Signal 4242 SIGTERM, Sleep 500, Signal 4242 SIGKILL] \<and>
       UpdatedAt (State env') = 7))"
  using KillBackground_cases [of "exampleEnv ''alpine''" idleWorld 7 4242]
    KillBackground_cases [of "exampleEnv ''host''"
      "idleWorld\<lparr>osFindProcess := (\<lambda>p. Some (External ''no such process''))\<rparr>" 7 4242]
    KillBackground_cases [of "exampleEnv ''host''" idleWorld 7 4242]
  by (auto simp add: IsHost_exampleEnv idleWorld_def)

text \<open>
  The claim as written fails in host mode for a pid that is not tracked: with an empty
  \<open>BackgroundProcesses\<close> the call succeeds and the signals are sent.
\<close>

theorem KillBackground_untracked_pid:
  "BackgroundProcesses (State (exampleEnv ''host'')) = [] \<and>
   fst (KillBackground idleWorld 7 (exampleEnv ''host'') 4242) = None \<and>
   Effects (snd (KillBackground idleWorld 7 (exampleEnv ''host'') 4242)) =
     [Signal 4242 SIGTERM, Sleep 500, Signal 4242 SIGKILL]"
  by (simp add: KillBackground_def IsHost_exampleEnv idleWorld_def) (simp add: exampleEnv_def)

section \<open>Repository lock manager: acquisition and release\<close>

lemma tryCtx_acquires:
  "0 < d \<Longrightarrow> j * d < r \<Longrightarrow> g (k + j) \<Longrightarrow> \<forall>i<j. \<not> g (k + i) \<Longrightarrow>
   tryCtx g d r k polls = (True, None, polls @ map (\<lambda>i. i * d) [k..<Suc (k + j)])"
proof (induction j arbitrary: r k polls)
  case 0
  then show ?case by (simp add: tryCtx.simps [of g d r k polls])
next
  case (Suc j)
  from Suc.prems(4) have nk: "\<not> g k" by (metis add.right_neutral zero_less_Suc)
  from Suc.prems(1,2) have rd: "d < r" and rest: "j * d < r - d" by simp_all
  have g': "g (Suc k + j)" using Suc.prems(3) by simp
  have none: "\<forall>i<j. \<not> g (Suc k + i)"
  proof (intro allI impI)
    fix i assume "i < j"
    then have "Suc i < Suc j" by simp
    with Suc.prems(4) have "\<not> g (k + Suc i)" by blast
    then show "\<not> g (Suc k + i)" by simp
  qed
  have "tryCtx g d (r - d) (Suc k) (polls @ [k * d]) =
        (True, None, (polls @ [k * d]) @ map (\<lambda>i. i * d) [Suc k..<Suc (Suc k + j)])"
    by (rule Suc.IH [OF Suc.prems(1) rest g' none])
  moreover have "[k..<Suc (k + Suc j)] = k # [Suc k..<Suc (Suc k + j)]"
    by (simp add: upt_conv_Cons)
  ultimately show ?case
    using nk rd Suc.prems(1) by (simp add: tryCtx.simps [of g d r k polls])
qed

lemma tryCtx_times_out:
  "0 < d \<Longrightarrow> 0 < r \<Longrightarrow> \<forall>j. j * d < r \<longrightarrow> \<not> g (k + j) \<Longrightarrow>
   tryCtx g d r k polls =
     (False, Some DeadlineExceeded, polls @ map (\<lambda>i. i * d) [k..<k + (r + d - 1) div d])"
proof (induction g d r k polls rule: tryCtx.induct)
  case (1 granted retryDelay remaining k polls)
  from "1.prems"(2,3) have nk: "\<not> granted k" by (metis add.right_neutral mult_0)
  show ?case
  proof (cases "remaining \<le> retryDelay")
    case True
    with "1.prems"(1,2) have "(remaining + retryDelay - 1) div retryDelay = 1"
      by (simp add: div_nat_eqI)
    with nk True show ?thesis
      by (simp add: tryCtx.simps [of granted retryDelay remaining k polls])
  next
    case False
    then have pos: "0 < remaining - retryDelay" by simp
    have none: "\<forall>j. j * retryDelay < remaining - retryDelay \<longrightarrow> \<not> granted (Suc k + j)"
    proof (intro allI impI)
      fix j assume "j * retryDelay < remaining - retryDelay"
      then have "Suc j * retryDelay < remaining" by simp
      with "1.prems"(3) have "\<not> granted (k + Suc j)" by blast
      then show "\<not> granted (Suc k + j)" by simp
    qed
    have ih: "tryCtx granted retryDelay (remaining - retryDelay) (Suc k) (polls @ [k * retryDelay]) =
        (False, Some DeadlineExceeded,
         (polls @ [k * retryDelay]) @
         map (\<lambda>i. i * retryDelay) [Suc k..<Suc k + (remaining - retryDelay + retryDelay - 1) div retryDelay])"
      using "1.IH" [OF nk _ "1.prems"(1) pos none] False "1.prems"(1) by simp
    have e: "remaining + retryDelay - 1 = (remaining - 1) + retryDelay"
      using "1.prems"(2) by arith
    have "((remaining - 1) + retryDelay) div retryDelay = Suc ((remaining - 1) div retryDelay)"
      using div_add_self2 [of retryDelay "remaining - 1"] "1.prems"(1) by simp
    then have "(remaining + retryDelay - 1) div retryDelay = Suc ((remaining - 1) div retryDelay)"
      by (simp only: e)
    moreover have "remaining - retryDelay + retryDelay - 1 = remaining - 1"
      using False by simp
    ultimately have "[k..<k + (remaining + retryDelay - 1) div retryDelay] =
        k # [Suc k..<Suc k + (remaining - retryDelay + retryDelay - 1) div retryDelay]"
      by (simp add: upt_conv_Cons)
    with ih nk False "1.prems"(1) show ?thesis
      by (simp add: tryCtx.simps [of granted retryDelay remaining k polls])
  qed
qed

lemma Lock_acquires:
  assumes "j * 100 < ctx" and "granted j" and "\<forall>i<j. \<not> granted i"
  shows "Lock granted ctx rl = (None, rl\<lparr>Held := Exclusive, Polls := map (\<lambda>i. i * 100) [0..<Suc j]\<rparr>)"
    and "RLock granted ctx rl = (None, rl\<lparr>Held := Shared, Polls := map (\<lambda>i. i * 100) [0..<Suc j]\<rparr>)"
proof -
  have "tryCtx granted 100 ctx 0 [] = (True, None, [] @ map (\<lambda>i. i * 100) [0..<Suc (0 + j)])"
    by (rule tryCtx_acquires) (use assms in simp_all)
  then have t: "tryCtx granted 100 ctx 0 [] = (True, None, map (\<lambda>i. i * 100) [0..<Suc j])"
    by simp
  from assms(1) have "ctx \<noteq> 0" by auto
  with t show "Lock granted ctx rl = (None, rl\<lparr>Held := Exclusive, Polls := map (\<lambda>i. i * 100) [0..<Suc j]\<rparr>)"
    and "RLock granted ctx rl = (None, rl\<lparr>Held := Shared, Polls := map (\<lambda>i. i * 100) [0..<Suc j]\<rparr>)"
    by (simp_all add: Lock_def RLock_def TryLockContext_def TryRLockContext_def Let_def)
qed

lemma Lock_times_out:
  assumes "\<forall>j. j * 100 < ctx \<longrightarrow> \<not> granted j"
  shows "Lock granted ctx rl =
      (Some (Errorf ''failed to acquire exclusive lock: %w'' [] (Some DeadlineExceeded)),
       rl\<lparr>Polls := map (\<lambda>i. i * 100) [0..<(ctx + 99) div 100]\<rparr>)"
    and "RLock granted ctx rl =
      (Some (Errorf ''failed to acquire shared lock: %w'' [] (Some DeadlineExceeded)),
       rl\<lparr>Polls := map (\<lambda>i. i * 100) [0..<(ctx + 99) div 100]\<rparr>)"
proof -
  have both: "Lock granted ctx rl =
      (Some (Errorf ''failed to acquire exclusive lock: %w'' [] (Some DeadlineExceeded)),
       rl\<lparr>Polls := map (\<lambda>i. i * 100) [0..<(ctx + 99) div 100]\<rparr>) \<and>
     RLock granted ctx rl =
      (Some (Errorf ''failed to acquire shared lock: %w'' [] (Some DeadlineExceeded)),
       rl\<lparr>Polls := map (\<lambda>i. i * 100) [0..<(ctx + 99) div 100]\<rparr>)"
  proof (cases "ctx = 0")
    case True
    then show ?thesis
      by (simp add: Lock_def RLock_def TryLockContext_def TryRLockContext_def Let_def)
  next
    case False
    then have pos: "0 < ctx" by simp
    have "tryCtx granted 100 ctx 0 [] =
        (False, Some DeadlineExceeded, [] @ map (\<lambda>i. i * 100) [0..<0 + (ctx + 100 - 1) div 100])"
      by (rule tryCtx_times_out) (use assms pos in simp_all)
    then have "tryCtx granted 100 ctx 0 [] =
        (False, Some DeadlineExceeded, map (\<lambda>i. i * 100) [0..<(ctx + 99) div 100])"
      by (simp add: add.commute)
    with False show ?thesis
      by (simp add: Lock_def RLock_def TryLockContext_def TryRLockContext_def Let_def)
  qed
  from both show "Lock granted ctx rl =
      (Some (Errorf ''failed to acquire exclusive lock: %w'' [] (Some DeadlineExceeded)),
       rl\<lparr>Polls := map (\<lambda>i. i * 100) [0..<(ctx + 99) div 100]\<rparr>)"
    and "RLock granted ctx rl =
      (Some (Errorf ''failed to acquire shared lock: %w'' [] (Some DeadlineExceeded)),
       rl\<lparr>Polls := map (\<lambda>i. i * 100) [0..<(ctx + 99) div 100]\<rparr>)"
    by simp_all
qed

text \<open>
  Claim C6. \<open>granted k\<close> says whether the operating system grants the file lock at the
  poll number \<open>k\<close>, and \<open>ctx\<close> is the time in milliseconds left until the deadline of the
  caller's context. If the lock is first granted at a poll \<open>j\<close> that starts before the deadline,
  \<open>Lock\<close> and \<open>RLock\<close> acquire it after polling at the times 0, 100, ..., 100 j, and
  \<open>WithLock\<close> and \<open>WithRLock\<close> run the protected function once, give back its outcome as it
  is (a return value, an error or a panic), and leave the lock released. If no poll before the
  deadline is granted, both fail with the deadline error wrapped, after at most
  \<open>(ctx + 99) div 100\<close> polls 100 ms apart; the protected function is not run (its state
  \<open>s\<close> is returned as it was) and the lock is not left held by the caller.
\<close>

theorem WithLock_releases_and_is_bounded:
  "(\<forall>j. j * 100 < ctx \<and> granted j \<and> (\<forall>i<j. \<not> granted i) \<longrightarrow>
      Lock granted ctx rl =
        (None, rl\<lparr>Held := Exclusive, Polls := map (\<lambda>i. i * 100) [0..<Suc j]\<rparr>) \<and>
      RLock granted ctx rl =
        (None, rl\<lparr>Held := Shared, Polls := map (\<lambda>i. i * 100) [0..<Suc j]\<rparr>) \<and>
      WithLock granted ctx fn (rl, s) =
        (fst (fn s), rl\<lparr>Held := Unlocked, Polls := map (\<lambda>i. i * 100) [0..<Suc j]\<rparr>, snd (fn s)) \<and>
      WithRLock granted ctx fn (rl, s) =
        (fst (fn s), rl\<lparr>Held := Unlocked, Polls := map (\<lambda>i. i * 100) [0..<Suc j]\<rparr>, snd (fn s))) \<and>
   ((\<forall>j. j * 100 < ctx \<longrightarrow> \<not> granted j) \<longrightarrow>
      WithLock granted ctx fn (rl, s) =
        (Returns (Some (Errorf ''failed to acquire exclusive lock: %w'' [] (Some DeadlineExceeded))),
         rl\<lparr>Polls := map (\<lambda>i. i * 100) [0..<(ctx + 99) div 100]\<rparr>, s) \<and>
      WithRLock granted ctx fn (rl, s) =
        (Returns (Some (Errorf ''failed to acquire shared lock: %w'' [] (Some DeadlineExceeded))),
         rl\<lparr>Polls := map (\<lambda>i. i * 100) [0..<(ctx + 99) div 100]\<rparr>, s))"
proof (intro conjI allI impI)
  fix j
  assume a: "j * 100 < ctx \<and> granted j \<and> (\<forall>i<j. \<not> granted i)"
  then have a1: "j * 100 < ctx" and a2: "granted j" and a3: "\<forall>i<j. \<not> granted i" by simp_all
  note l = Lock_acquires [OF a1 a2 a3, of rl]
  show "Lock granted ctx rl =
        (None, rl\<lparr>Held := Exclusive, Polls := map (\<lambda>i. i * 100) [0..<Suc j]\<rparr>)"
    by (rule l(1))
  show "RLock granted ctx rl =
        (None, rl\<lparr>Held := Shared, Polls := map (\<lambda>i. i * 100) [0..<Suc j]\<rparr>)"
    by (rule l(2))
  show "WithLock granted ctx fn (rl, s) =
        (fst (fn s), rl\<lparr>Held := Unlocked, Polls := map (\<lambda>i. i * 100) [0..<Suc j]\<rparr>, snd (fn s))"
    by (simp add: WithLock_def l(1) Unlock_def flock_Unlock_def split: prod.splits)
  show "WithRLock granted ctx fn (rl, s) =
        (fst (fn s), rl\<lparr>Held := Unlocked, Polls := map (\<lambda>i. i * 100) [0..<Suc j]\<rparr>, snd (fn s))"
    by (simp add: WithRLock_def l(2) Unlock_def flock_Unlock_def split: prod.splits)
next
  assume b: "\<forall>j. j * 100 < ctx \<longrightarrow> \<not> granted j"
  note l = Lock_times_out [OF b, of rl]
  show "WithLock granted ctx fn (rl, s) =
        (Returns (Some (Errorf ''failed to acquire exclusive lock: %w'' [] (Some DeadlineExceeded))),
         rl\<lparr>Polls := map (\<lambda>i. i * 100) [0..<(ctx + 99) div 100]\<rparr>, s)"
    by (simp add: WithLock_def l(1))
  show "WithRLock granted ctx fn (rl, s) =
        (Returns (Some (Errorf ''failed to acquire shared lock: %w'' [] (Some DeadlineExceeded))),
         rl\<lparr>Polls := map (\<lambda>i. i * 100) [0..<(ctx + 99) div 100]\<rparr>, s)"
    by (simp add: WithRLock_def l(2))
qed

theorem WithLock_releases_and_is_bounded_witness:
  "WithLock (\<lambda>k. k = 2) 1000 (\<lambda>s. (Panics ''boom'', Suc s)) (\<lparr>Held = Unlocked, Polls = []\<rparr>, 0::nat) =
     (Panics ''boom'', \<lparr>Held = Unlocked, Polls = [0, 100, 200]\<rparr>, 1) \<and>
   WithRLock (\<lambda>k. k = 2) 1000 (\<lambda>s. (Returns (Some (External ''git failed'')), Suc s))
       (\<lparr>Held = Unlocked, Polls = []\<rparr>, 0::nat) =
     (Returns (Some (External ''git failed'')), \<lparr>Held = Unlocked, Polls = [0, 100, 200]\<rparr>, 1) \<and>
   WithLock (\<lambda>k. False) 250 (\<lambda>s. (Returns None, Suc s)) (\<lparr>Held = Unlocked, Polls = []\<rparr>, 0::nat) =
     (Returns (Some (Errorf ''failed to acquire exclusive lock: %w'' [] (Some DeadlineExceeded))),
      \<lparr>Held = Unlocked, Polls = [0, 100, 200]\<rparr>, 0)"
proof -
  have g: "(2::nat) * 100 < 1000 \<and> (2::nat) = 2 \<and> (\<forall>i<2::nat. i \<noteq> 2)"
    by simp
  have n: "\<forall>j::nat. j * 100 < (250::nat) \<longrightarrow> \<not> False"
    by simp
  have u: "map (\<lambda>i. i * 100) [0..<Suc 2] = [0, 100, 200::nat]"
    "map (\<lambda>i. i * 100) [0..<(250 + 99) div 100] = [0, 100, 200::nat]"
    "map (\<lambda>i. i * 100) [0..<3] = [0, 100, 200::nat]"
    by (simp_all add: upt_rec)
  note t1 = WithLock_releases_and_is_bounded [of 1000 "\<lambda>k. k = 2" "\<lparr>Held = Unlocked, Polls = []\<rparr>"
      "\<lambda>s. (Panics ''boom'', Suc s)" "0::nat", THEN conjunct1, THEN spec [of _ "2::nat"], THEN mp, OF g]
  note t2 = WithLock_releases_and_is_bounded [of 1000 "\<lambda>k. k = 2" "\<lparr>Held = Unlocked, Polls = []\<rparr>"
      "\<lambda>s. (Returns (Some (External ''git failed'')), Suc s)" "0::nat", THEN conjunct1, THEN spec [of _ "2::nat"], THEN mp, OF g]
  note t3 = WithLock_releases_and_is_bounded [of 250 "\<lambda>k. False" "\<lparr>Held = Unlocked, Polls = []\<rparr>"
      "\<lambda>s. (Returns None, Suc s)" "0::nat", THEN conjunct2, THEN mp, OF n]
  from t1 t2 t3 show ?thesis by (simp add: u)
qed

end
